theory Spec2Isabelle
  imports Main
begin

section \<open>Python values, dictionaries and exceptions\<close>

text \<open>
  The values that travel through the client: what the JSON decoder returns and what the
  request data carries. Floating-point numbers are left out; a JSON object is an
  association list in insertion order, read through \<open>map_of\<close>.
\<close>

datatype pyval =
    PNone
  | PBool bool
  | PInt int
  | PStr string
  | PList "pyval list"
  | PDict "(string \<times> pyval) list"

type_synonym pydict = "(string \<times> pyval) list"

text \<open>Python's truth value of an object (\<open>if x\<close>, \<open>x and y\<close>, \<open>assert x\<close>).\<close>

fun truthy :: "pyval \<Rightarrow> bool" where
  "truthy PNone = False"
| "truthy (PBool b) = b"
| "truthy (PInt i) = (i \<noteq> 0)"
| "truthy (PStr s) = (s \<noteq> [])"
| "truthy (PList xs) = (xs \<noteq> [])"
| "truthy (PDict kvs) = (kvs \<noteq> [])"

text \<open>An optional string (\<open>None\<close> or a \<open>str\<close>) is true when it is a non-empty string.\<close>

fun truthy_str :: "string option \<Rightarrow> bool" where
  "truthy_str None = False"
| "truthy_str (Some s) = (s \<noteq> [])"

text \<open>
  The exceptions of \<open>util.py\<close> and the built-in ones the code can meet.
  \<open>ParsingError\<close> and \<open>JSONError\<close> are raised with \<open>str(exc)\<close> of the exception
  they replace, so they carry it; \<open>ValidationError\<close> carries the response it formats
  into its message. \<open>RequestException\<close> stands for a failure of the HTTP library and
  \<open>ExpatError\<close> for one of the XML parser; \<open>OSError\<close> is what opening or writing
  a file raises (\<open>IOError\<close> in Python 2).
\<close>

datatype exn =
    ValidationError pyval
  | LoginError
  | ParsingError exn
  | JSONError exn
  | DownloadError
  | ForwardingError
  | AttributeError
  | AssertionError
  | KeyError
  | TypeError
  | ValueError
  | NotImplementedError
  | RequestException
  | ExpatError
  | OSError

text \<open>\<open>key in d\<close>, \<open>d[key]\<close>, \<open>d[key] = v\<close> and \<open>d.update(other)\<close> on a \<open>dict\<close>.\<close>

definition dict_contains :: "pydict \<Rightarrow> string \<Rightarrow> bool" where
  "dict_contains d k = (map_of d k \<noteq> None)"

definition dict_getitem :: "pydict \<Rightarrow> string \<Rightarrow> exn + pyval" where
  "dict_getitem d k = (case map_of d k of None \<Rightarrow> Inl KeyError | Some v \<Rightarrow> Inr v)"

fun dict_setitem :: "pydict \<Rightarrow> string \<Rightarrow> pyval \<Rightarrow> pydict" where
  "dict_setitem [] k v = [(k, v)]"
| "dict_setitem ((k', v') # d) k v =
     (if k' = k then (k, v) # d else (k', v') # dict_setitem d k v)"

fun dict_update :: "pydict \<Rightarrow> pydict \<Rightarrow> pydict" where
  "dict_update d [] = d"
| "dict_update d ((k, v) # other) = dict_update (dict_setitem d k v) other"

section \<open>Strings and the regular expressions of \<open>voice.py\<close>\<close>

text \<open>\<open>s.startswith(p)\<close>, \<open>sub in s\<close> and \<open>s.upper()\<close> on (ASCII) strings.\<close>

fun startswith :: "string \<Rightarrow> string \<Rightarrow> bool" where
  "startswith s [] = True"
| "startswith [] (c # p) = False"
| "startswith (x # s) (c # p) = (x = c \<and> startswith s p)"

fun str_in :: "string \<Rightarrow> string \<Rightarrow> bool" where
  "str_in sub [] = (sub = [])"
| "str_in sub (c # s) = (startswith (c # s) sub \<or> str_in sub s)"

definition upper_char :: "char \<Rightarrow> char" where
  "upper_char c =
     (case map_of (zip ''abcdefghijklmnopqrstuvwxyz'' ''ABCDEFGHIJKLMNOPQRSTUVWXYZ'') c of
        Some u \<Rightarrow> u
      | None \<Rightarrow> c)"

definition upper :: "string \<Rightarrow> string" where
  "upper s = map upper_char s"

definition squote :: char where "squote = CHR 0x27"
definition dquote :: char where "dquote = CHR 0x22"
definition newline :: char where "newline = CHR 0x0A"

text \<open>
  The ASCII white space: space, tab, line feed, carriage return, vertical tab, form feed.
  It is the class \<open>\s\<close> of Python 2; Python 3 adds separators to it, so the patterns
  below take the class as a parameter.
\<close>

definition is_space :: "char \<Rightarrow> bool" where
  "is_space c = (c \<in> set [CHR 0x20, CHR 0x09, CHR 0x0A, CHR 0x0D, CHR 0x0B, CHR 0x0C])"

text \<open>
  The three patterns are sequences of literals, \<open>\s+\<close> and one final group closed
  by a quote, so matching at a given position is deterministic:
  \<^item> a literal must be a prefix of what is left;
  \<^item> \<open>\s+\<close> is followed by a literal that starts with a letter, so it takes all the
    white space there is (the characters of the class \<open>sp\<close>), and at least one
    character;
  \<^item> \<open>(.+)q\<close> at the end of a pattern, greedy, takes the line (\<open>.\<close> matches no
    line feed) up to its last \<open>q\<close>, which must leave at least one character;
  \<^item> \<open>([^q]+)q\<close> takes the characters before the next \<open>q\<close>, at least one, and the
    \<open>q\<close> must be there.
  Each returns what is left to match, or the group.
\<close>

definition lit :: "string \<Rightarrow> string \<Rightarrow> string option" where
  "lit p s = (if startswith s p then Some (drop (length p) s) else None)"

definition spaces1 :: "(char \<Rightarrow> bool) \<Rightarrow> string \<Rightarrow> string option" where
  "spaces1 sp s =
     (case s of [] \<Rightarrow> None
      | c # _ \<Rightarrow> if sp c then Some (dropWhile sp s) else None)"

definition dot_plus_then :: "char \<Rightarrow> string \<Rightarrow> string option" where
  "dot_plus_then q s =
     (let line = takeWhile (\<lambda>c. c \<noteq> newline) s;
          cut = rev (dropWhile (\<lambda>c. c \<noteq> q) (rev line))
      in if 2 \<le> length cut then Some (butlast cut) else None)"

definition not_q_plus_then :: "char \<Rightarrow> string \<Rightarrow> string option" where
  "not_q_plus_then q s =
     (let run = takeWhile (\<lambda>c. c \<noteq> q) s; rest = dropWhile (\<lambda>c. c \<noteq> q) s
      in if run \<noteq> [] \<and> rest \<noteq> [] then Some run else None)"

text \<open>\<open>re.search\<close>: the match at the leftmost position that has one.\<close>

fun re_search :: "(string \<Rightarrow> string option) \<Rightarrow> string \<Rightarrow> string option" where
  "re_search m [] = m []"
| "re_search m (c # s) = (case m (c # s) of Some g \<Rightarrow> Some g | None \<Rightarrow> re_search m s)"

text \<open>\<^verbatim>\<open>('_rnr_se':) '(.+)'\<close>, group 2.\<close>

definition match_special :: "string \<Rightarrow> string option" where
  "match_special s =
     (case lit ([squote] @ ''_rnr_se'' @ [squote] @ '': '' @ [squote]) s of
        None \<Rightarrow> None
      | Some r \<Rightarrow> dot_plus_then squote r)"

text \<open>\<^verbatim>\<open>type="hidden"\s+name="gxf"\s+value="(.+)"\<close>, group 1.\<close>

definition match_gxf :: "(char \<Rightarrow> bool) \<Rightarrow> string \<Rightarrow> string option" where
  "match_gxf sp s =
     (case lit (''type='' @ [dquote] @ ''hidden'' @ [dquote]) s of None \<Rightarrow> None
      | Some r1 \<Rightarrow>
     (case spaces1 sp r1 of None \<Rightarrow> None
      | Some r2 \<Rightarrow>
     (case lit (''name='' @ [dquote] @ ''gxf'' @ [dquote]) r2 of None \<Rightarrow> None
      | Some r3 \<Rightarrow>
     (case spaces1 sp r3 of None \<Rightarrow> None
      | Some r4 \<Rightarrow>
     (case lit (''value='' @ [dquote]) r4 of None \<Rightarrow> None
      | Some r5 \<Rightarrow> dot_plus_then dquote r5)))))"

text \<open>\<^verbatim>\<open>name="smsToken"\s+value="([^"]+)"\<close>, group 1.\<close>

definition match_smsToken :: "(char \<Rightarrow> bool) \<Rightarrow> string \<Rightarrow> string option" where
  "match_smsToken sp s =
     (case lit (''name='' @ [dquote] @ ''smsToken'' @ [dquote]) s of None \<Rightarrow> None
      | Some r1 \<Rightarrow>
     (case spaces1 sp r1 of None \<Rightarrow> None
      | Some r2 \<Rightarrow>
     (case lit (''value='' @ [dquote]) r2 of None \<Rightarrow> None
      | Some r3 \<Rightarrow> not_q_plus_then dquote r3)))"

section \<open>\<open>util.AttrDict\<close>\<close>

text \<open>
  An \<open>AttrDict\<close> (and its subclasses \<open>Phone\<close>, \<open>Message\<close>, \<open>Folder\<close>) is a
  \<open>dict\<close> with instance attributes. Python calls \<open>__getattr__\<close> only when normal
  attribute lookup (instance attributes, then the class) finds nothing; \<open>normal\<close>
  holds what normal lookup finds.
\<close>

record AttrDict =
  normal :: "string \<rightharpoonup> pyval"
  items :: pydict

definition AttrDict_getattr :: "pydict \<Rightarrow> string \<Rightarrow> exn + pyval" where
  "AttrDict_getattr self attr =
     (if dict_contains self attr then dict_getitem self attr else Inr PNone)"

definition read_attribute :: "AttrDict \<Rightarrow> string \<Rightarrow> exn + pyval" where
  "read_attribute d a =
     (case normal d a of Some v \<Rightarrow> Inr v | None \<Rightarrow> AttrDict_getattr (items d) a)"

text \<open>
  \<open>Phone\<close>, \<open>Message\<close> and \<open>Folder\<close> are \<open>AttrDict\<close>s with the instance attributes
  their constructors set (the reference to the \<open>Voice\<close> instance is the state that the
  operations below thread).
\<close>

record Phone =
  Phone_items :: pydict

record Message =
  Message_id :: string
  Message_items :: pydict

record Folder =
  Folder_name :: string
  Folder_items :: pydict

section \<open>The HTTP session, the environment and the state\<close>

record request =
  req_method :: string
  req_url :: string
  req_data :: "pydict option"
  req_params :: "pydict option"
  req_headers :: "pydict option"

text \<open>
  A response of the HTTP library (a \<open>requests.Response\<close>): its \<open>url\<close>, \<open>text\<close>,
  \<open>content\<close> and \<open>status_code\<close>, and what \<open>.json()\<close> gives.
\<close>

record response =
  resp_url :: string
  resp_text :: string
  resp_content :: string
  status_code :: nat
  resp_json :: "exn + pyval"

text \<open>
  \<open>resp.read()\<close>: a \<open>requests.Response\<close> has no attribute \<open>read\<close> (the body is in
  \<open>content\<close> and \<open>text\<close>), so looking the method up raises \<open>AttributeError\<close>.
\<close>

definition Response_read :: "response \<Rightarrow> exn + string" where
  "Response_read resp = Inl AttributeError"

type_synonym exchange = "request \<times> (exn + response)"

text \<open>The calls the XML parser makes to its handlers, in document order.\<close>

datatype event =
    StartElement string "(string \<times> string) list"
  | EndElement string
  | CharacterData string

text \<open>
  Everything outside the repository is a parameter: the service (its answer may depend on
  the requests made so far, and a request may fail with an exception), the \<open>settings\<close>
  and \<open>conf\<close> modules (not among the sources), the JSON decoder, expat (the events it
  delivers for a text and the error it ends with, if any), \<open>dict()\<close> of a value that is
  not a mapping, the class \<open>\s\<close> of the interpreter's \<open>re\<close>, the terminal, the shell,
  the working directory and the file system: whether a path can be opened for writing
  given the files there are (\<open>open_wb\<close>, the exception if it cannot), and whether
  writing a content to the opened file goes through (\<open>fo_write\<close>, else the exception
  and how many bytes had reached the file).
\<close>

record env =
  settings_attr :: "string \<Rightarrow> string"
  server :: "exchange list \<Rightarrow> request \<Rightarrow> exn + response"
  json_loads :: "string \<Rightarrow> exn + pyval"
  expat_parse :: "string \<Rightarrow> event list \<times> exn option"
  dict_of_iterable :: "pyval \<Rightarrow> exn + pydict"
  config_email :: "string option"
  config_password :: "string option"
  config_smsKey :: "string option"
  config_forwardingNumber :: pyval
  config_phoneType :: pyval
  input_line :: "string \<Rightarrow> string"
  getpass :: "string \<Rightarrow> string"
  b32decode_hex :: "string \<Rightarrow> exn + string"
  getstatusoutput :: "exchange list \<Rightarrow> string \<Rightarrow> string"
  getcwd :: string
  re_space :: "char \<Rightarrow> bool"
  open_wb :: "(string \<rightharpoonup> string) \<Rightarrow> string \<Rightarrow> exn option"
  fo_write :: "string \<Rightarrow> string \<Rightarrow> (exn \<times> nat) option"

text \<open>An attribute that may not be set (\<open>hasattr\<close>).\<close>

datatype 'a pyattr = Absent | Present 'a

text \<open>
  The \<open>Voice\<close> instance (\<open>_special\<close>, \<open>_contacts\<close>) with what it acts on: the exchanges
  of its session so far, oldest first, and the file system.
\<close>

record state =
  special_attr :: "string option pyattr"
  contacts_attr :: "Folder pyattr"
  sent :: "exchange list"
  files :: "string \<rightharpoonup> string"

type_synonym 'a result = "(exn + 'a) \<times> state"

definition Voice_init :: "(string \<rightharpoonup> string) \<Rightarrow> state" where
  "Voice_init fs = \<lparr>special_attr = Absent, contacts_attr = Absent, sent = [], files = fs\<rparr>"

definition pyval_of_str :: "string option \<Rightarrow> pyval" where
  "pyval_of_str v = (case v of None \<Rightarrow> PNone | Some s \<Rightarrow> PStr s)"

definition truthy_dict :: "pydict option \<Rightarrow> bool" where
  "truthy_dict d = (case d of None \<Rightarrow> False | Some kvs \<Rightarrow> kvs \<noteq> [])"

text \<open>\<open>a or b\<close> on values and on optional strings.\<close>

definition py_or :: "pyval \<Rightarrow> pyval \<Rightarrow> pyval" where
  "py_or a b = (if truthy a then a else b)"

definition or_else :: "string option \<Rightarrow> string option \<Rightarrow> string option" where
  "or_else a b = (if truthy_str a then a else b)"

subsection \<open>Requests\<close>

definition session_request ::
  "env \<Rightarrow> string \<Rightarrow> string \<Rightarrow> pydict option \<Rightarrow> pydict option \<Rightarrow> pydict option \<Rightarrow>
   state \<Rightarrow> response result" where
  "session_request env method url data params headers s =
     (let rq = \<lparr>req_method = method, req_url = url, req_data = data,
                 req_params = params, req_headers = headers\<rparr>;
          res = server env (sent s) rq
      in (res, s\<lparr>sent := sent s @ [(rq, res)]\<rparr>))"

definition session_get :: "env \<Rightarrow> string \<Rightarrow> state \<Rightarrow> response result" where
  "session_get env url s = session_request env ''GET'' url None None None s"

definition resolve_page :: "env \<Rightarrow> string \<Rightarrow> string" where
  "resolve_page env page = settings_attr env (upper page)"

definition do_url ::
  "env \<Rightarrow> string \<Rightarrow> pydict option \<Rightarrow> pydict option \<Rightarrow> pydict option \<Rightarrow>
   state \<Rightarrow> response result" where
  "do_url env url data headers terms s =
     (let method = (if truthy_dict data then ''POST'' else ''GET'')
      in session_request env method url data
           (if truthy_dict terms then terms else None) headers s)"

definition do_page ::
  "env \<Rightarrow> string \<Rightarrow> pydict option \<Rightarrow> pydict option \<Rightarrow> pydict option \<Rightarrow>
   state \<Rightarrow> response result" where
  "do_page env page data headers terms s =
     do_url env (resolve_page env page) data headers terms s"

subsection \<open>The session token\<close>

definition getattr_special :: "state \<Rightarrow> string option" where
  "getattr_special s = (case special_attr s of Absent \<Rightarrow> None | Present v \<Rightarrow> v)"

definition special :: "env \<Rightarrow> state \<Rightarrow> (string option) result" where
  "special env s =
     (if truthy_str (getattr_special s) then (Inr (getattr_special s), s)
      else
        (case session_get env (settings_attr env ''INBOX'') s of
           (Inl e, s1) \<Rightarrow> (Inl e, s1)
         | (Inr resp, s1) \<Rightarrow>
             (let sp = re_search match_special (resp_text resp)
              in (Inr sp, s1\<lparr>special_attr := Present sp\<rparr>))))"

definition do_special_page ::
  "env \<Rightarrow> string \<Rightarrow> pydict option \<Rightarrow> pydict option \<Rightarrow> pydict option \<Rightarrow>
   state \<Rightarrow> response result" where
  "do_special_page env page data headers terms s =
     (case special env s of
        (Inl e, s1) \<Rightarrow> (Inl e, s1)
      | (Inr sp, s1) \<Rightarrow>
          if \<not> truthy_str sp then (Inl AssertionError, s1)
          else
            (case data of
               None \<Rightarrow> do_page env page None headers terms s1
             | Some d \<Rightarrow>
                 (case special env s1 of
                    (Inl e, s2) \<Rightarrow> (Inl e, s2)
                  | (Inr sp2, s2) \<Rightarrow>
                      do_page env page
                        (Some (dict_update d [(''_rnr_se'', pyval_of_str sp2)]))
                        headers terms s2)))"

subsection \<open>\<open>util.validate_response\<close> and the validated pages\<close>

text \<open>\<open>'ok' in response\<close> and \<open>response['ok']\<close> on a decoded JSON value.\<close>

fun ok_in :: "pyval \<Rightarrow> exn + bool" where
  "ok_in (PDict d) = Inr (dict_contains d ''ok'')"
| "ok_in (PList xs) = Inr (PStr ''ok'' \<in> set xs)"
| "ok_in (PStr t) = Inr (str_in ''ok'' t)"
| "ok_in _ = Inl TypeError"

fun getitem_ok :: "pyval \<Rightarrow> exn + pyval" where
  "getitem_ok (PDict d) = dict_getitem d ''ok''"
| "getitem_ok _ = Inl TypeError"

definition validate_response :: "pyval \<Rightarrow> exn + unit" where
  "validate_response response =
     (case ok_in response of
        Inl e \<Rightarrow> Inl e
      | Inr False \<Rightarrow> Inl (ValidationError response)
      | Inr True \<Rightarrow>
          (case getitem_ok response of
             Inl e \<Rightarrow> Inl e
           | Inr v \<Rightarrow> if truthy v then Inr () else Inl (ValidationError response)))"

definition load_and_validate :: "response \<Rightarrow> exn + unit" where
  "load_and_validate response =
     (case resp_json response of Inl e \<Rightarrow> Inl e | Inr j \<Rightarrow> validate_response j)"

definition validate_special_page ::
  "env \<Rightarrow> string \<Rightarrow> pydict \<Rightarrow> pydict \<Rightarrow> state \<Rightarrow> unit result" where
  "validate_special_page env page data kwargs s =
     (case do_special_page env page (Some (dict_update data kwargs)) (Some []) (Some []) s of
        (Inl e, s1) \<Rightarrow> (Inl e, s1)
      | (Inr resp, s1) \<Rightarrow> (load_and_validate resp, s1))"

datatype msg_arg = MsgId string | MsgObject Message

definition msg_id_of :: "msg_arg \<Rightarrow> string" where
  "msg_id_of msg = (case msg of MsgObject m \<Rightarrow> Message_id m | MsgId i \<Rightarrow> i)"

definition messages_post ::
  "env \<Rightarrow> string \<Rightarrow> msg_arg list \<Rightarrow> pydict \<Rightarrow> state \<Rightarrow> response result" where
  "messages_post env page msgs data s =
     (if length msgs \<noteq> 1 then (Inl NotImplementedError, s)
      else
        (let data' = foldl (\<lambda>d msg. dict_setitem d ''messages'' (PStr (msg_id_of msg))) data msgs
         in do_special_page env page (Some data') (Some []) (Some []) s))"

subsection \<open>The action endpoints\<close>

definition call :: "env \<Rightarrow> pyval \<Rightarrow> pyval \<Rightarrow> pyval \<Rightarrow> pyval \<Rightarrow> state \<Rightarrow> unit result" where
  "call env outgoingNumber forwardingNumber phoneType subscriberNumber s =
     (let forwardingNumber' =
            (if forwardingNumber = PNone then config_forwardingNumber env else forwardingNumber);
          phoneType' = (if phoneType = PNone then config_phoneType env else phoneType)
      in validate_special_page env ''call''
           [(''outgoingNumber'', outgoingNumber),
            (''forwardingNumber'', forwardingNumber'),
            (''subscriberNumber'', py_or subscriberNumber (PStr ''undefined'')),
            (''phoneType'', phoneType'),
            (''remember'', PStr ''1'')] [] s)"

definition cancel :: "env \<Rightarrow> pyval \<Rightarrow> pyval \<Rightarrow> state \<Rightarrow> unit result" where
  "cancel env outgoingNumber forwardingNumber s =
     validate_special_page env ''cancel''
       [(''outgoingNumber'', py_or outgoingNumber (PStr ''undefined'')),
        (''forwardingNumber'', py_or forwardingNumber (PStr ''undefined'')),
        (''cancelType'', PStr ''C2C'')] [] s"

definition send_sms :: "env \<Rightarrow> pyval \<Rightarrow> pyval \<Rightarrow> state \<Rightarrow> unit result" where
  "send_sms env phoneNumber text s =
     validate_special_page env ''sms'' [(''phoneNumber'', phoneNumber), (''text'', text)] [] s"

definition archive :: "env \<Rightarrow> msg_arg \<Rightarrow> pyval \<Rightarrow> state \<Rightarrow> unit result" where
  "archive env msg archive_flag s =
     (case messages_post env ''archive'' [msg] [(''archive'', archive_flag)] s of
        (Inl e, s1) \<Rightarrow> (Inl e, s1)
      | (Inr resp, s1) \<Rightarrow> (Inr (), s1))"

definition delete :: "env \<Rightarrow> msg_arg \<Rightarrow> pyval \<Rightarrow> state \<Rightarrow> unit result" where
  "delete env msg trash s =
     (case messages_post env ''delete'' [msg] [(''trash'', trash)] s of
        (Inl e, s1) \<Rightarrow> (Inl e, s1)
      | (Inr resp, s1) \<Rightarrow> (Inr (), s1))"

definition Message_delete :: "env \<Rightarrow> Message \<Rightarrow> pyval \<Rightarrow> state \<Rightarrow> unit result" where
  "Message_delete env self trash s =
     (case messages_post env ''delete'' [MsgId (Message_id self)] [(''trash'', trash)] s of
        (Inl e, s1) \<Rightarrow> (Inl e, s1)
      | (Inr resp, s1) \<Rightarrow> (Inr (), s1))"

definition Message_star :: "env \<Rightarrow> Message \<Rightarrow> pyval \<Rightarrow> state \<Rightarrow> unit result" where
  "Message_star env self star s =
     (case messages_post env ''star'' [MsgId (Message_id self)] [(''star'', star)] s of
        (Inl e, s1) \<Rightarrow> (Inl e, s1)
      | (Inr resp, s1) \<Rightarrow> (Inr (), s1))"

definition Message_mark :: "env \<Rightarrow> Message \<Rightarrow> pyval \<Rightarrow> state \<Rightarrow> unit result" where
  "Message_mark env self read s =
     (case messages_post env ''mark'' [MsgId (Message_id self)] [(''read'', read)] s of
        (Inl e, s1) \<Rightarrow> (Inl e, s1)
      | (Inr resp, s1) \<Rightarrow> (Inr (), s1))"

definition Phone_call_forwarding :: "env \<Rightarrow> Phone \<Rightarrow> string \<Rightarrow> state \<Rightarrow> unit result" where
  "Phone_call_forwarding env self enabled s =
     (case AttrDict_getattr (Phone_items self) ''id'' of
        Inl e \<Rightarrow> (Inl e, s)
      | Inr ident \<Rightarrow>
          validate_special_page env ''default_forward''
            [(''enabled'', PStr enabled), (''phoneId'', ident)] [] s)"

definition Phone_enable :: "env \<Rightarrow> Phone \<Rightarrow> state \<Rightarrow> unit result" where
  "Phone_enable env self s = Phone_call_forwarding env self ''1'' s"

definition Phone_disable :: "env \<Rightarrow> Phone \<Rightarrow> state \<Rightarrow> unit result" where
  "Phone_disable env self s = Phone_call_forwarding env self ''0'' s"

subsection \<open>\<open>Voice.download\<close>\<close>

text \<open>
  \<open>os.path.join\<close> of two components (POSIX), \<open>Response.raise_for_status\<close>, and the
  download itself. Only the request and \<open>raise_for_status\<close> are inside the \<open>try\<close>;
  \<open>open(fn, 'wb')\<close> and \<open>fo.write\<close> come after it, and what they raise is raised by
  \<open>download\<close>. Opening creates the file, or empties it; the file system maps the path
  to the bytes written.
\<close>

definition endswith :: "string \<Rightarrow> string \<Rightarrow> bool" where
  "endswith s p = startswith (rev s) (rev p)"

definition path_join :: "string \<Rightarrow> string \<Rightarrow> string" where
  "path_join a b =
     (if startswith b ''/'' then b
      else if a = [] \<or> endswith a ''/'' then a @ b
      else a @ ''/'' @ b)"

definition raise_for_status :: "response \<Rightarrow> exn + unit" where
  "raise_for_status r =
     (if 400 \<le> status_code r \<and> status_code r < 600 then Inl RequestException else Inr ())"

definition download :: "env \<Rightarrow> msg_arg \<Rightarrow> string option \<Rightarrow> state \<Rightarrow> string result" where
  "download env msg adir s =
     (let msg' = (case msg of MsgObject m \<Rightarrow> Message_id m | MsgId i \<Rightarrow> i);
          adir' = (case adir of None \<Rightarrow> getcwd env | Some d \<Rightarrow> d);
          url = resolve_page env ''download'' @ msg'
      in case do_url env url None None None s of
           (Inl e, s1) \<Rightarrow> (Inl DownloadError, s1)
         | (Inr resp, s1) \<Rightarrow>
             (case raise_for_status resp of
                Inl e \<Rightarrow> (Inl DownloadError, s1)
              | Inr _ \<Rightarrow>
                  (let fn = path_join adir' (msg' @ ''.mp3'')
                   in case open_wb env (files s1) fn of
                        Some e \<Rightarrow> (Inl e, s1)
                      | None \<Rightarrow>
                          (case fo_write env fn (resp_content resp) of
                             Some (e, n) \<Rightarrow>
                               (Inl e,
                                s1\<lparr>files := (files s1)(fn \<mapsto> take n (resp_content resp))\<rparr>)
                           | None \<Rightarrow>
                               (Inr fn,
                                s1\<lparr>files := (files s1)(fn \<mapsto> resp_content resp)\<rparr>)))))"

section \<open>\<open>util.XMLParser\<close>\<close>

text \<open>
  The parser object: the tag it is collecting for (\<open>attr\<close>), the two texts, the page
  name and the callback that fetches the feed.
\<close>

record XMLParser =
  attr :: "string option"
  json :: string
  html :: string
  name :: string
  datafunc :: "state \<Rightarrow> string result"

definition XMLParser_init :: "string \<Rightarrow> (state \<Rightarrow> string result) \<Rightarrow> XMLParser" where
  "XMLParser_init page f = \<lparr>attr = None, json = [], html = [], name = page, datafunc = f\<rparr>"

definition start_element :: "XMLParser \<Rightarrow> string \<Rightarrow> (string \<times> string) list \<Rightarrow> XMLParser" where
  "start_element self tag attrs =
     (if tag = ''json'' \<or> tag = ''html'' then self\<lparr>attr := Some tag\<rparr> else self)"

definition end_element :: "XMLParser \<Rightarrow> string \<Rightarrow> XMLParser" where
  "end_element self tag = self\<lparr>attr := None\<rparr>"

text \<open>
  \<open>setattr(self, self.attr, getattr(self, self.attr) + data)\<close>: \<open>start_element\<close> is the
  only writer of \<open>attr\<close> and stores \<open>'json'\<close> or \<open>'html'\<close>, the two attributes
  written out here.
\<close>

definition char_data :: "XMLParser \<Rightarrow> string \<Rightarrow> XMLParser" where
  "char_data self data =
     (if truthy_str (attr self) \<and> data \<noteq> [] then
        (if attr self = Some ''json'' then self\<lparr>json := json self @ data\<rparr>
         else if attr self = Some ''html'' then self\<lparr>html := html self @ data\<rparr>
         else self)
      else self)"

text \<open>\<open>parser.Parse\<close> calls the handlers, one event after the other.\<close>

fun handle :: "XMLParser \<Rightarrow> event \<Rightarrow> XMLParser" where
  "handle self (StartElement tag attrs) = start_element self tag attrs"
| "handle self (EndElement tag) = end_element self tag"
| "handle self (CharacterData data) = char_data self data"

definition Parse :: "XMLParser \<Rightarrow> event list \<Rightarrow> XMLParser" where
  "Parse self evs = foldl handle self evs"

definition XMLParser_data :: "env \<Rightarrow> XMLParser \<Rightarrow> exn + pyval" where
  "XMLParser_data env self =
     (case json_loads env (json self) of Inl e \<Rightarrow> Inl (JSONError e) | Inr v \<Rightarrow> Inr v)"

text \<open>\<open>dict.__init__(data)\<close>: a copy of a mapping, or whatever \<open>dict()\<close> makes of the rest.\<close>

definition dict_init :: "env \<Rightarrow> pyval \<Rightarrow> exn + pydict" where
  "dict_init env v = (case v of PDict kvs \<Rightarrow> Inr kvs | _ \<Rightarrow> dict_of_iterable env v)"

definition Folder_init :: "env \<Rightarrow> string \<Rightarrow> pyval \<Rightarrow> exn + Folder" where
  "Folder_init env page data =
     (case dict_init env data of
        Inl e \<Rightarrow> Inl e
      | Inr kvs \<Rightarrow> Inr \<lparr>Folder_name = page, Folder_items = kvs\<rparr>)"

definition XMLParser_folder :: "env \<Rightarrow> XMLParser \<Rightarrow> exn + Folder" where
  "XMLParser_folder env self =
     (case XMLParser_data env self of
        Inl e \<Rightarrow> Inl e
      | Inr d \<Rightarrow> Folder_init env (name self) d)"

text \<open>
  Calling the parser. It returns the folder or the exception, the parser as the call
  leaves it, and the state.
\<close>

definition XMLParser_call ::
  "env \<Rightarrow> XMLParser \<Rightarrow> state \<Rightarrow> (exn + Folder) \<times> XMLParser \<times> state" where
  "XMLParser_call env self s =
     (let self1 = self\<lparr>json := [], html := []\<rparr>
      in case datafunc self1 s of
           (Inl e, s1) \<Rightarrow> (Inl (ParsingError e), self1, s1)
         | (Inr data, s1) \<Rightarrow>
             (case expat_parse env data of
                (evs, Some e) \<Rightarrow> (Inl (ParsingError e), Parse self1 evs, s1)
              | (evs, None) \<Rightarrow>
                  (let self2 = Parse self1 evs in (XMLParser_folder env self2, self2, s1))))"

definition get_xml_page ::
  "env \<Rightarrow> string \<Rightarrow> pydict option \<Rightarrow> pydict option \<Rightarrow> pydict option \<Rightarrow> XMLParser" where
  "get_xml_page env page data headers terms =
     XMLParser_init page
       (\<lambda>s. case do_special_page env (''XML_'' @ upper page) data headers terms s of
              (Inl e, s1) \<Rightarrow> (Inl e, s1)
            | (Inr resp, s1) \<Rightarrow> (Inr (resp_text resp), s1))"

definition search :: "env \<Rightarrow> pyval \<Rightarrow> state \<Rightarrow> Folder result" where
  "search env query s =
     (case XMLParser_call env
             (get_xml_page env ''search'' None (Some []) (Some [(''q'', query)])) s of
        (r, p, s1) \<Rightarrow> (r, s1))"

definition contacts :: "env \<Rightarrow> state \<Rightarrow> Folder result" where
  "contacts env s =
     (case contacts_attr s of
        Present c \<Rightarrow> (Inr c, s)
      | Absent \<Rightarrow>
          (case XMLParser_call env
                  (get_xml_page env ''contacts'' None (Some []) (Some [])) s of
             (Inl e, p, s1) \<Rightarrow> (Inl e, s1)
           | (Inr c, p, s1) \<Rightarrow> (Inr c, s1\<lparr>contacts_attr := Present c\<rparr>)))"

section \<open>Logging in and out\<close>

definition oathtoolAuth :: "env \<Rightarrow> string \<Rightarrow> state \<Rightarrow> string result" where
  "oathtoolAuth env smsKey s =
     (let smsPin = getstatusoutput env (sent s) (''oathtool --totp '' @ smsKey)
      in case do_page env ''smsauth'' (Some [(''smsUserPin'', PStr smsPin)]) None None s of
           (Inl e, s1) \<Rightarrow> (Inl e, s1)
         | (Inr resp, s1) \<Rightarrow> (Response_read resp, s1))"

definition invalid_code_marker :: string where
  "invalid_code_marker = ''The code you entered didn&#39;t verify.''"

text \<open>
  The \<open>while\<close> loop of \<open>__smsAuth\<close>, entered with the content of the first attempt and
  \<open>try_count = 1\<close>. (The message it prints and the ten seconds it sleeps before each new
  attempt are not part of the state.)
\<close>

function sms_retry :: "env \<Rightarrow> string \<Rightarrow> string \<Rightarrow> nat \<Rightarrow> state \<Rightarrow> string result" where
  "sms_retry env smsKey content try_count s =
     (if str_in invalid_code_marker content \<and> try_count < 5 then
        (case oathtoolAuth env smsKey s of
           (Inl e, s1) \<Rightarrow> (Inl e, s1)
         | (Inr content', s1) \<Rightarrow> sms_retry env smsKey content' (try_count + 1) s1)
      else (Inr content, s))"
  by pat_completeness auto
termination
  by (relation "measure (\<lambda>(env, smsKey, content, try_count, s). 5 - try_count)") auto

declare sms_retry.simps [simp del]

definition smsAuth :: "env \<Rightarrow> string option \<Rightarrow> state \<Rightarrow> string result" where
  "smsAuth env smsKey s =
     (let smsKey1 = (case smsKey of None \<Rightarrow> config_smsKey env | Some k \<Rightarrow> Some k)
      in case smsKey1 of
           None \<Rightarrow>
             (let smsPin = getpass env ''SMS PIN: ''
              in case do_page env ''smsauth'' (Some [(''smsUserPin'', PStr smsPin)])
                        None None s of
                   (Inl e, s1) \<Rightarrow> (Inl e, s1)
                 | (Inr resp, s1) \<Rightarrow> (Response_read resp, s1))
         | Some k \<Rightarrow>
             (case b32decode_hex env (filter (\<lambda>c. c \<noteq> CHR '' '') k) of
                Inl e \<Rightarrow> (Inl e, s)
              | Inr smsKey2 \<Rightarrow>
                  (case oathtoolAuth env smsKey2 s of
                     (Inl e, s1) \<Rightarrow> (Inl e, s1)
                   | (Inr content, s1) \<Rightarrow> sms_retry env smsKey2 content 1 s1)))"

text \<open>
  \<open>Voice.login\<close>, in the order of the source: the early return when a session token is
  held; the login form and the post of the credentials (\<open>login_form\<close>); the second
  factor when the post lands on the SMS page (\<open>login_sms\<close>); the final check of the
  session token (\<open>login_check\<close>). The value \<open>()\<close> stands for the instance itself, which
  is the state returned.
\<close>

definition holds_token :: "state \<Rightarrow> bool" where
  "holds_token s = (case special_attr s of Absent \<Rightarrow> False | Present v \<Rightarrow> truthy_str v)"

definition login_form ::
  "env \<Rightarrow> string option \<Rightarrow> string option \<Rightarrow> state \<Rightarrow> response result" where
  "login_form env email passwd s =
     (let email' = or_else (or_else email (config_email env))
                     (Some (input_line env ''Email address: ''));
          passwd' = or_else (or_else passwd (config_password env))
                      (Some (getpass env ''Password: ''))
      in case do_page env ''login'' None None None s of
           (Inl e, s1) \<Rightarrow> (Inl e, s1)
         | (Inr resp, s1) \<Rightarrow>
             (case re_search (match_gxf (re_space env)) (resp_text resp) of
                None \<Rightarrow> (Inl AttributeError, s1)
              | Some gxf \<Rightarrow>
                  do_page env ''login_post''
                    (Some [(''Email'', pyval_of_str email'),
                           (''Passwd'', pyval_of_str passwd'),
                           (''gxf'', PStr gxf)]) None None s1))"

definition login_sms :: "env \<Rightarrow> string option \<Rightarrow> state \<Rightarrow> unit result" where
  "login_sms env smsKey s =
     (case smsAuth env smsKey s of
        (Inl e, s1) \<Rightarrow> (Inl e, s1)
      | (Inr content, s1) \<Rightarrow>
          (case re_search (match_smsToken (re_space env)) content of
             None \<Rightarrow> (Inl LoginError, s1)
           | Some smsToken \<Rightarrow>
               (case do_page env ''login''
                       (Some [(''smsToken'', PStr smsToken), (''service'', PStr ''grandcentral'')])
                       None None s1 of
                  (Inl e, s2) \<Rightarrow> (Inl (if e = AttributeError then LoginError else e), s2)
                | (Inr resp, s2) \<Rightarrow> (Inr (), s2))))"

definition login_check :: "env \<Rightarrow> state \<Rightarrow> unit result" where
  "login_check env s =
     (case special env s of
        (Inl e, s1) \<Rightarrow>
          (Inl (if e = AssertionError \<or> e = AttributeError then LoginError else e), s1)
      | (Inr sp, s1) \<Rightarrow> if truthy_str sp then (Inr (), s1) else (Inl LoginError, s1))"

definition login ::
  "env \<Rightarrow> string option \<Rightarrow> string option \<Rightarrow> string option \<Rightarrow> state \<Rightarrow> unit result" where
  "login env email passwd smsKey s =
     (if holds_token s then (Inr (), s)
      else
        (case login_form env email passwd s of
           (Inl e, s1) \<Rightarrow> (Inl e, s1)
         | (Inr result, s1) \<Rightarrow>
             if startswith (resp_url result) (settings_attr env ''SMSAUTH'') then
               (case login_sms env smsKey s1 of
                  (Inl e, s2) \<Rightarrow> (Inl e, s2)
                | (Inr _, s2) \<Rightarrow> login_check env s2)
             else login_check env s1))"

definition logout :: "env \<Rightarrow> state \<Rightarrow> unit result" where
  "logout env s =
     (case do_page env ''logout'' None None None s of
        (Inl e, s1) \<Rightarrow> (Inl e, s1)
      | (Inr resp, s1) \<Rightarrow>
          (case special_attr s1 of
             Absent \<Rightarrow> (Inl AttributeError, s1)
           | Present v \<Rightarrow>
               (case special env (s1\<lparr>special_attr := Absent\<rparr>) of
                  (Inl e, s2) \<Rightarrow> (Inl e, s2)
                | (Inr sp, s2) \<Rightarrow>
                    if sp = None then (Inr (), s2) else (Inl AssertionError, s2))))"

section \<open>Derived notions used in the statements\<close>

text \<open>The request that \<open>download\<close> sends for a message and the path it writes to.\<close>

definition download_request :: "env \<Rightarrow> msg_arg \<Rightarrow> request" where
  "download_request env msg =
     \<lparr>req_method = ''GET'', req_url = resolve_page env ''download'' @ msg_id_of msg,
      req_data = None, req_params = None, req_headers = None\<rparr>"

definition download_path :: "env \<Rightarrow> msg_arg \<Rightarrow> string option \<Rightarrow> string" where
  "download_path env msg adir =
     path_join (case adir of None \<Rightarrow> getcwd env | Some d \<Rightarrow> d) (msg_id_of msg @ ''.mp3'')"

section \<open>Example environments\<close>

text \<open>
  Concrete services, pages and states on which the theorems below are run: a service that
  answers every request with the same page, one that answers with a JSON value, one that
  answers with a given status code and one that fails. The example environment decodes
  the base-32 key \<open>MFRGG===\<close> (the bytes \<open>abc\<close>, in hexadecimal \<open>616263\<close>) and
  rejects every other key, and only lets files be opened under \<open>/tmp/\<close>.
\<close>

definition page_response :: "string \<Rightarrow> string \<Rightarrow> response" where
  "page_response u t =
     \<lparr>resp_url = u, resp_text = t, resp_content = t, status_code = 200,
      resp_json = Inl ValueError\<rparr>"

definition echo_server :: "string \<Rightarrow> exchange list \<Rightarrow> request \<Rightarrow> exn + response" where
  "echo_server t h rq = Inr (page_response (req_url rq) t)"

definition json_server :: "pyval \<Rightarrow> exchange list \<Rightarrow> request \<Rightarrow> exn + response" where
  "json_server j h rq = Inr ((page_response (req_url rq) [])\<lparr>resp_json := Inr j\<rparr>)"

definition status_server :: "nat \<Rightarrow> exchange list \<Rightarrow> request \<Rightarrow> exn + response" where
  "status_server n h rq = Inr ((page_response (req_url rq) ''gone'')\<lparr>status_code := n\<rparr>)"

definition failing_server :: "exchange list \<Rightarrow> request \<Rightarrow> exn + response" where
  "failing_server h rq = Inl RequestException"

text \<open>A page with the hidden \<open>gxf\<close> field on one line and the session token on the next.\<close>

definition example_page :: string where
  "example_page =
     ''<input type='' @ [dquote] @ ''hidden'' @ [dquote] @ '' name='' @ [dquote] @ ''gxf''
       @ [dquote] @ '' value='' @ [dquote] @ ''G1'' @ [dquote] @ [newline]
       @ [squote] @ ''_rnr_se'' @ [squote] @ '': '' @ [squote] @ ''tok'' @ [squote]"

definition example_env :: "(exchange list \<Rightarrow> request \<Rightarrow> exn + response) \<Rightarrow> env" where
  "example_env srv =
     \<lparr>settings_attr = (\<lambda>page. ''https://voice.example/'' @ page),
      server = srv,
      json_loads = (\<lambda>t. if t = ''{}'' then Inr (PDict []) else Inl ValueError),
      expat_parse =
        (\<lambda>t. ([StartElement ''json'' [], CharacterData t, EndElement ''json''], None)),
      dict_of_iterable = (\<lambda>v. Inl TypeError),
      config_email = None, config_password = None, config_smsKey = None,
      config_forwardingNumber = PNone, config_phoneType = PNone,
      input_line = (\<lambda>prompt. ''user''), getpass = (\<lambda>prompt. ''secret''),
      b32decode_hex = (\<lambda>k. if k = ''MFRGG==='' then Inr ''616263'' else Inl TypeError),
      getstatusoutput = (\<lambda>h cmd. ''123456''),
      getcwd = ''/tmp'',
      re_space = is_space,
      open_wb = (\<lambda>fs fn. if startswith fn ''/tmp/'' then None else Some OSError),
      fo_write = (\<lambda>fn content. None)\<rparr>"

definition logged_in :: state where
  "logged_in = (Voice_init Map.empty)\<lparr>special_attr := Present (Some ''tok'')\<rparr>"

text \<open>An environment whose disk is full after the first byte of a write.\<close>

definition full_disk_env :: env where
  "full_disk_env =
     (example_env (echo_server ''abc''))\<lparr>fo_write := (\<lambda>fn content. Some (OSError, 1))\<rparr>"

lemmas fixture_defs = page_response_def echo_server_def json_server_def status_server_def
  failing_server_def example_page_def example_env_def logged_in_def Voice_init_def
  squote_def dquote_def newline_def

lemmas request_defs = do_page_def do_url_def session_request_def session_get_def
  resolve_page_def truthy_dict_def upper_def upper_char_def Let_def

section \<open>Documents and what a two-tag extractor collects\<close>

text \<open>
  A document as a tree, the events it is delivered as, and, in the words of the
  specification, the text that occurs inside the elements of a given name.
\<close>

datatype xml = Text string | Element string "(string \<times> string) list" "xml list"

fun events_of :: "xml \<Rightarrow> event list" where
  "events_of (Text d) = [CharacterData d]"
| "events_of (Element tag attrs kids) =
     StartElement tag attrs # concat (map events_of kids) @ [EndElement tag]"

fun all_text :: "xml \<Rightarrow> string" where
  "all_text (Text d) = d"
| "all_text (Element tag attrs kids) = concat (map all_text kids)"

fun text_inside :: "string \<Rightarrow> xml \<Rightarrow> string" where
  "text_inside n (Text d) = []"
| "text_inside n (Element tag attrs kids) =
     (if tag = n then concat (map all_text kids) else concat (map (text_inside n) kids))"

text \<open>
  The element state of the extractor: a start tag named \<open>json\<close> or \<open>html\<close> sets it to
  that name, any other start tag leaves it, any end tag clears it. \<open>collected n st evs\<close>
  is the character data that \<open>evs\<close> delivers while the state is \<open>n\<close>, from the state
  \<open>st\<close> on.
\<close>

fun element_state :: "string option \<Rightarrow> event \<Rightarrow> string option" where
  "element_state st (StartElement tag attrs) =
     (if tag = ''json'' \<or> tag = ''html'' then Some tag else st)"
| "element_state st (EndElement tag) = None"
| "element_state st (CharacterData d) = st"

fun delivered :: "string \<Rightarrow> string option \<Rightarrow> event \<Rightarrow> string" where
  "delivered n st (CharacterData d) = (if st = Some n then d else [])"
| "delivered n st ev = []"

fun collected :: "string \<Rightarrow> string option \<Rightarrow> event list \<Rightarrow> string" where
  "collected n st [] = []"
| "collected n st (ev # evs) = delivered n st ev @ collected n (element_state st ev) evs"

definition valid_attr :: "XMLParser \<Rightarrow> bool" where
  "valid_attr p = (attr p = None \<or> attr p = Some ''json'' \<or> attr p = Some ''html'')"

text \<open>A document whose \<open>json\<close> and \<open>html\<close> elements hold character data only.\<close>

fun is_text :: "xml \<Rightarrow> bool" where
  "is_text (Text d) = True"
| "is_text (Element tag attrs kids) = False"

fun flat :: "xml \<Rightarrow> bool" where
  "flat (Text d) = True"
| "flat (Element tag attrs kids) =
     (if tag = ''json'' \<or> tag = ''html'' then (\<forall>k \<in> set kids. is_text k)
      else (\<forall>k \<in> set kids. flat k))"

text \<open>
  Two documents, one whose \<open>json\<close> and \<open>html\<close> elements hold character data
  only and one with an element inside its \<open>json\<close> element, an environment whose XML
  parser delivers a given document, and a parser to read it.
\<close>

definition flat_feed :: xml where
  "flat_feed =
     Element ''response'' []
       [Element ''json'' [] [Text ''{}''], Text ''x'', Element ''html'' [] [Text ''<p>'']]"

definition nested_feed :: xml where
  "nested_feed = Element ''json'' [] [Element ''b'' [] [], Text ''d'']"

definition feed_env :: "xml \<Rightarrow> env" where
  "feed_env doc = (example_env failing_server)\<lparr>expat_parse := (\<lambda>t. (events_of doc, None))\<rparr>"

definition feed_parser :: XMLParser where
  "feed_parser = XMLParser_init ''inbox'' (Pair (Inr ''feed''))"

text \<open>
  A feed whose \<open>json\<close> element holds the object \<open>{"totalSize": 1}\<close>, with an
  environment that delivers it and decodes that text.
\<close>

definition folder_json :: string where
  "folder_json = ''{'' @ [dquote] @ ''totalSize'' @ [dquote] @ '': 1}''"

definition folder_feed :: xml where
  "folder_feed =
     Element ''response'' []
       [Element ''json'' [] [Text folder_json], Element ''html'' [] [Text ''<p>'']]"

definition folder_env :: env where
  "folder_env =
     (feed_env folder_feed)
       \<lparr>json_loads :=
          (\<lambda>t. if t = folder_json then Inr (PDict [(''totalSize'', PInt 1)])
                else Inl ValueError)\<rparr>"

text \<open>The request with which \<open>special\<close> fetches the inbox page.\<close>

definition inbox_request :: "env \<Rightarrow> request" where
  "inbox_request env =
     \<lparr>req_method = ''GET'', req_url = settings_attr env ''INBOX'',
      req_data = None, req_params = None, req_headers = None\<rparr>"

text \<open>
  The action endpoints of \<open>Voice\<close>, \<open>Message\<close> and \<open>Phone\<close> with their arguments;
  for each one the page it posts to, the data its caller passes down, and whether the
  response goes through \<open>validate_response\<close>.
\<close>

datatype endpoint =
    Call pyval pyval pyval pyval
  | Cancel pyval pyval
  | SendSms pyval pyval
  | Archive msg_arg pyval
  | Delete msg_arg pyval
  | MessageDelete Message pyval
  | MessageStar Message pyval
  | MessageMark Message pyval
  | PhoneEnable Phone
  | PhoneDisable Phone

fun perform :: "env \<Rightarrow> endpoint \<Rightarrow> state \<Rightarrow> unit result" where
  "perform env (Call outgoingNumber forwardingNumber phoneType subscriberNumber) s =
     call env outgoingNumber forwardingNumber phoneType subscriberNumber s"
| "perform env (Cancel outgoingNumber forwardingNumber) s =
     cancel env outgoingNumber forwardingNumber s"
| "perform env (SendSms phoneNumber text) s = send_sms env phoneNumber text s"
| "perform env (Archive msg flag) s = archive env msg flag s"
| "perform env (Delete msg trash) s = delete env msg trash s"
| "perform env (MessageDelete m trash) s = Message_delete env m trash s"
| "perform env (MessageStar m star) s = Message_star env m star s"
| "perform env (MessageMark m read) s = Message_mark env m read s"
| "perform env (PhoneEnable p) s = Phone_enable env p s"
| "perform env (PhoneDisable p) s = Phone_disable env p s"

fun endpoint_page :: "endpoint \<Rightarrow> string" where
  "endpoint_page (Call a b c d) = ''call''"
| "endpoint_page (Cancel a b) = ''cancel''"
| "endpoint_page (SendSms a b) = ''sms''"
| "endpoint_page (Archive msg flag) = ''archive''"
| "endpoint_page (Delete msg trash) = ''delete''"
| "endpoint_page (MessageDelete m trash) = ''delete''"
| "endpoint_page (MessageStar m star) = ''star''"
| "endpoint_page (MessageMark m read) = ''mark''"
| "endpoint_page (PhoneEnable p) = ''default_forward''"
| "endpoint_page (PhoneDisable p) = ''default_forward''"

fun caller_data :: "env \<Rightarrow> endpoint \<Rightarrow> pydict" where
  "caller_data env (Call outgoingNumber forwardingNumber phoneType subscriberNumber) =
     [(''outgoingNumber'', outgoingNumber),
      (''forwardingNumber'',
         if forwardingNumber = PNone then config_forwardingNumber env else forwardingNumber),
      (''subscriberNumber'', if truthy subscriberNumber then subscriberNumber else PStr ''undefined''),
      (''phoneType'', if phoneType = PNone then config_phoneType env else phoneType),
      (''remember'', PStr ''1'')]"
| "caller_data env (Cancel outgoingNumber forwardingNumber) =
     [(''outgoingNumber'', if truthy outgoingNumber then outgoingNumber else PStr ''undefined''),
      (''forwardingNumber'',
         if truthy forwardingNumber then forwardingNumber else PStr ''undefined''),
      (''cancelType'', PStr ''C2C'')]"
| "caller_data env (SendSms phoneNumber text) = [(''phoneNumber'', phoneNumber), (''text'', text)]"
| "caller_data env (Archive msg flag) =
     [(''archive'', flag), (''messages'', PStr (msg_id_of msg))]"
| "caller_data env (Delete msg trash) =
     [(''trash'', trash), (''messages'', PStr (msg_id_of msg))]"
| "caller_data env (MessageDelete m trash) =
     [(''trash'', trash), (''messages'', PStr (Message_id m))]"
| "caller_data env (MessageStar m star) =
     [(''star'', star), (''messages'', PStr (Message_id m))]"
| "caller_data env (MessageMark m read) =
     [(''read'', read), (''messages'', PStr (Message_id m))]"
| "caller_data env (PhoneEnable p) =
     [(''enabled'', PStr ''1''),
      (''phoneId'', case map_of (Phone_items p) ''id'' of Some v \<Rightarrow> v | None \<Rightarrow> PNone)]"
| "caller_data env (PhoneDisable p) =
     [(''enabled'', PStr ''0''),
      (''phoneId'', case map_of (Phone_items p) ''id'' of Some v \<Rightarrow> v | None \<Rightarrow> PNone)]"

fun validated :: "endpoint \<Rightarrow> bool" where
  "validated (Call a b c d) = True"
| "validated (Cancel a b) = True"
| "validated (SendSms a b) = True"
| "validated (PhoneEnable p) = True"
| "validated (PhoneDisable p) = True"
| "validated ep = False"

definition action_request :: "env \<Rightarrow> endpoint \<Rightarrow> string \<Rightarrow> request" where
  "action_request env ep tok =
     \<lparr>req_method = ''POST'', req_url = resolve_page env (endpoint_page ep),
      req_data = Some (dict_update (caller_data env ep) [(''_rnr_se'', PStr tok)]),
      req_params = None, req_headers = Some []\<rparr>"

definition has_truthy_ok :: "pydict \<Rightarrow> bool" where
  "has_truthy_ok d = (case map_of d ''ok'' of None \<Rightarrow> False | Some v \<Rightarrow> truthy v)"

text \<open>
  States without a session and with stored contacts, and a service that answers every
  request with \<open>{"ok": false}\<close>.
\<close>

definition logged_out :: state where
  "logged_out = Voice_init Map.empty"

definition with_contacts :: state where
  "with_contacts =
     (Voice_init Map.empty)
       \<lparr>contacts_attr := Present \<lparr>Folder_name = ''contacts'', Folder_items = []\<rparr>\<rparr>"

definition refusing_server :: "exchange list \<Rightarrow> request \<Rightarrow> exn + response" where
  "refusing_server = json_server (PDict [(''ok'', PBool False)])"

definition accepting_server :: "exchange list \<Rightarrow> request \<Rightarrow> exn + response" where
  "accepting_server = json_server (PDict [(''ok'', PBool True)])"

definition refusal :: response where
  "refusal =
     (page_response ''https://voice.example/ARCHIVE'' [])
       \<lparr>resp_json := Inr (PDict [(''ok'', PBool False)])\<rparr>"

text \<open>
  An attempt of the second factor with the \<open>oathtool\<close> code: the request it sends after
  the exchanges \<open>h\<close>, with the answer of the service.
\<close>

definition oathtool_request :: "env \<Rightarrow> string \<Rightarrow> exchange list \<Rightarrow> request" where
  "oathtool_request env smsKey h =
     \<lparr>req_method = ''POST'', req_url = resolve_page env ''smsauth'',
      req_data = Some [(''smsUserPin'',
                        PStr (getstatusoutput env h (''oathtool --totp '' @ smsKey)))],
      req_params = None, req_headers = None\<rparr>"

definition oathtool_attempt :: "env \<Rightarrow> string \<Rightarrow> exchange list \<Rightarrow> exchange" where
  "oathtool_attempt env smsKey h =
     (oathtool_request env smsKey h, server env h (oathtool_request env smsKey h))"

text \<open>A service that keeps answering that the code did not verify.\<close>

definition rejecting_env :: env where
  "rejecting_env = example_env (echo_server invalid_code_marker)"



section \<open>Attribute access on an \<open>AttrDict\<close>\<close>

lemma map_of_dict_setitem:
  "map_of (dict_setitem d k v) = (map_of d)(k \<mapsto> v)"
  by (induction d k v rule: dict_setitem.induct) auto

lemma AttrDict_getattr_total:
  "AttrDict_getattr d a = Inr (case map_of d a of Some v \<Rightarrow> v | None \<Rightarrow> PNone)"
  by (simp add: AttrDict_getattr_def dict_contains_def dict_getitem_def split: option.splits)

text \<open>
  Claim C9. For every \<open>AttrDict\<close> \<open>d\<close> and every attribute name \<open>a\<close> that normal
  attribute lookup does not find, reading \<open>d.a\<close> returns \<open>d[a]\<close> when \<open>a\<close> is a
  key of the dict and \<open>None\<close> otherwise; it never raises \<open>AttributeError\<close> (nor any
  other exception).
\<close>

theorem AttrDict_missing_attribute:
  assumes "normal d a = None"
  shows "(dict_contains (items d) a \<longrightarrow>
            read_attribute d a = dict_getitem (items d) a \<and>
            (\<exists>v. map_of (items d) a = Some v \<and> read_attribute d a = Inr v))
       \<and> (\<not> dict_contains (items d) a \<longrightarrow> read_attribute d a = Inr PNone)
       \<and> read_attribute d a \<noteq> Inl AttributeError
       \<and> (\<exists>v. read_attribute d a = Inr v)"
  using assms
  by (auto simp: read_attribute_def AttrDict_getattr_def dict_contains_def dict_getitem_def
           split: option.splits)

theorem AttrDict_missing_attribute_witness:
  "read_attribute \<lparr>normal = Map.empty, items = [(''id'', PInt 7)]\<rparr> ''id'' = Inr (PInt 7)
   \<and> read_attribute \<lparr>normal = Map.empty, items = [(''id'', PInt 7)]\<rparr> ''name'' = Inr PNone"
  using AttrDict_missing_attribute
          [of "\<lparr>normal = Map.empty, items = [(''id'', PInt 7)]\<rparr>" "''id''"]
        AttrDict_missing_attribute
          [of "\<lparr>normal = Map.empty, items = [(''id'', PInt 7)]\<rparr>" "''name''"]
  by (simp add: dict_contains_def dict_getitem_def)

section \<open>Logging in with a session already established\<close>

text \<open>
  Claim C7. \<open>Voice.login\<close> is idempotent with respect to an established session: if
  the instance already holds a truthy \<open>_special\<close> session token, \<open>login\<close> returns
  the instance at once, with no HTTP request (the session's exchanges are part of the
  state) and all state unchanged.
\<close>

theorem login_idempotent:
  assumes "holds_token s"
  shows "login env email passwd smsKey s = (Inr (), s)"
  using assms by (simp add: login_def)

theorem login_idempotent_witness:
  "holds_token logged_in
   \<and> login (example_env failing_server) None None None logged_in = (Inr (), logged_in)"
proof -
  have h: "holds_token logged_in" by (simp add: holds_token_def fixture_defs)
  show ?thesis using h login_idempotent [OF h] by simp
qed

section \<open>Downloading a message\<close>

text \<open>
  Claim C10, as amended. \<open>Voice.download\<close> raises \<open>DownloadError\<close> whenever the
  HTTP request fails or the response carries an error status, and then writes no file.
  Otherwise it opens the file at the path that joins \<open>adir\<close> (the current directory
  when \<open>adir\<close> is \<open>None\<close>) with the message id followed by \<open>.mp3\<close>, a
  \<open>Message\<close> argument being first reduced to its id: when the file cannot be opened
  the error of the operating system is raised as it is and no file is written; when the
  write fails its error is raised as it is, the file holding the bytes written so far;
  and when both go through the file holds the response content and the path is
  returned. In every case exactly one request has been sent.
\<close>

theorem download_DownloadError_or_file:
  fixes env msg adir s
  defines "rq \<equiv> download_request env msg"
  defines "res \<equiv> server env (sent s) rq"
  defines "fn \<equiv> download_path env msg adir"
  shows "((\<exists>e. res = Inl e) \<or> (\<exists>r. res = Inr r \<and> raise_for_status r \<noteq> Inr ()) \<longrightarrow>
            fst (download env msg adir s) = Inl DownloadError \<and>
            files (snd (download env msg adir s)) = files s)
       \<and> (\<forall>r. res = Inr r \<and> raise_for_status r = Inr () \<longrightarrow>
            (\<forall>e. open_wb env (files s) fn = Some e \<longrightarrow>
               fst (download env msg adir s) = Inl e \<and>
               files (snd (download env msg adir s)) = files s)
          \<and> (\<forall>e n. open_wb env (files s) fn = None
                   \<and> fo_write env fn (resp_content r) = Some (e, n) \<longrightarrow>
               fst (download env msg adir s) = Inl e \<and>
               files (snd (download env msg adir s))
                 = (files s)(fn \<mapsto> take n (resp_content r)))
          \<and> (open_wb env (files s) fn = None \<and> fo_write env fn (resp_content r) = None \<longrightarrow>
               fst (download env msg adir s) = Inr fn \<and>
               files (snd (download env msg adir s)) = (files s)(fn \<mapsto> resp_content r)))
       \<and> sent (snd (download env msg adir s)) = sent s @ [(rq, res)]"
  unfolding rq_def res_def fn_def
  by (cases "server env (sent s) (download_request env msg)")
     (auto simp: download_def download_request_def download_path_def msg_id_of_def
        do_url_def session_request_def truthy_dict_def Let_def
        split: sum.splits msg_arg.splits option.splits)

theorem download_DownloadError_or_file_witness:
  "fst (download (example_env (echo_server ''abc''))
          (MsgObject \<lparr>Message_id = ''m1'', Message_items = []\<rparr>) None logged_in)
     = Inr ''/tmp/m1.mp3''
   \<and> files (snd (download (example_env (echo_server ''abc''))
          (MsgObject \<lparr>Message_id = ''m1'', Message_items = []\<rparr>) None logged_in))
        ''/tmp/m1.mp3'' = Some ''abc''
   \<and> fst (download (example_env (status_server 404)) (MsgId ''m1'') (Some ''/var/'') logged_in)
     = Inl DownloadError
   \<and> files (snd (download (example_env (status_server 404)) (MsgId ''m1'') (Some ''/var/'')
          logged_in)) ''/var/m1.mp3'' = None
   \<and> fst (download (example_env failing_server) (MsgId ''m1'') (Some ''/var/'') logged_in)
     = Inl DownloadError
   \<and> fst (download (example_env (echo_server ''abc'')) (MsgId ''m1'') (Some ''/var/'') logged_in)
     = Inl OSError
   \<and> fst (download full_disk_env (MsgId ''m1'') None logged_in) = Inl OSError
   \<and> files (snd (download full_disk_env (MsgId ''m1'') None logged_in)) ''/tmp/m1.mp3''
     = Some ''a''"
  using download_DownloadError_or_file
          [of "example_env (echo_server ''abc'')" logged_in
              "MsgObject \<lparr>Message_id = ''m1'', Message_items = []\<rparr>" None]
        download_DownloadError_or_file
          [of "example_env (status_server 404)" logged_in "MsgId ''m1''" "Some ''/var/''"]
        download_DownloadError_or_file
          [of "example_env failing_server" logged_in "MsgId ''m1''" "Some ''/var/''"]
        download_DownloadError_or_file
          [of "example_env (echo_server ''abc'')" logged_in "MsgId ''m1''" "Some ''/var/''"]
        download_DownloadError_or_file
          [of full_disk_env logged_in "MsgId ''m1''" None]
  by (simp add: fixture_defs full_disk_env_def download_request_def download_path_def
        msg_id_of_def raise_for_status_def path_join_def endswith_def resolve_page_def
        upper_def upper_char_def)

text \<open>
  Claim C10 as stated fails where the file cannot be opened: the request is answered
  with status 200, and \<open>download\<close> neither raises \<open>DownloadError\<close> nor returns the
  path, it raises the \<open>OSError\<close> of \<open>open\<close>, which comes after the \<open>try\<close>, and no
  file is written.
\<close>

theorem download_unwritable_counterexample:
  "server (example_env (echo_server ''abc'')) (sent logged_in)
       (download_request (example_env (echo_server ''abc'')) (MsgId ''m1''))
     = Inr (page_response ''https://voice.example/DOWNLOADm1'' ''abc'')
   \<and> raise_for_status (page_response ''https://voice.example/DOWNLOADm1'' ''abc'') = Inr ()
   \<and> download_path (example_env (echo_server ''abc'')) (MsgId ''m1'') (Some ''/nonexistent-dir'')
     = ''/nonexistent-dir/m1.mp3''
   \<and> fst (download (example_env (echo_server ''abc'')) (MsgId ''m1'') (Some ''/nonexistent-dir'')
            logged_in) = Inl OSError
   \<and> files (snd (download (example_env (echo_server ''abc'')) (MsgId ''m1'')
                    (Some ''/nonexistent-dir'') logged_in)) ''/nonexistent-dir/m1.mp3'' = None"
  by (simp add: fixture_defs download_def download_request_def download_path_def
        msg_id_of_def raise_for_status_def path_join_def endswith_def request_defs)

section \<open>The feed parser\<close>

lemma attr_handle: "attr (handle p ev) = element_state (attr p) ev"
  by (cases ev) (simp_all add: start_element_def end_element_def char_data_def)

lemma name_handle: "name (handle p ev) = name p"
  by (cases ev) (simp_all add: start_element_def end_element_def char_data_def)

lemma valid_attr_handle: "valid_attr p \<Longrightarrow> valid_attr (handle p ev)"
  by (cases ev) (auto simp: valid_attr_def start_element_def end_element_def char_data_def)

lemma json_handle:
  "valid_attr p \<Longrightarrow> json (handle p ev) = json p @ delivered ''json'' (attr p) ev"
  by (cases ev) (auto simp: valid_attr_def start_element_def end_element_def char_data_def)

lemma html_handle:
  "valid_attr p \<Longrightarrow> html (handle p ev) = html p @ delivered ''html'' (attr p) ev"
  by (cases ev) (auto simp: valid_attr_def start_element_def end_element_def char_data_def)

lemma name_Parse: "name (Parse p evs) = name p"
  unfolding Parse_def by (induction evs arbitrary: p) (simp_all add: name_handle)

lemma valid_attr_Parse: "valid_attr p \<Longrightarrow> valid_attr (Parse p evs)"
  unfolding Parse_def by (induction evs arbitrary: p) (simp_all add: valid_attr_handle)

lemma json_Parse:
  "valid_attr p \<Longrightarrow> json (Parse p evs) = json p @ collected ''json'' (attr p) evs"
  unfolding Parse_def
  by (induction evs arbitrary: p) (simp_all add: json_handle valid_attr_handle attr_handle)

lemma html_Parse:
  "valid_attr p \<Longrightarrow> html (Parse p evs) = html p @ collected ''html'' (attr p) evs"
  unfolding Parse_def
  by (induction evs arbitrary: p) (simp_all add: html_handle valid_attr_handle attr_handle)

lemma collected_append:
  "collected n st (es1 @ es2) = collected n st es1 @ collected n (foldl element_state st es1) es2"
  by (induction es1 arbitrary: st) simp_all

lemma collected_texts:
  assumes "\<forall>k \<in> set kids. is_text k"
  shows "collected n st (concat (map events_of kids)) =
           (if st = Some n then concat (map all_text kids) else [])
         \<and> foldl element_state st (concat (map events_of kids)) = st"
  using assms
proof (induction kids)
  case Nil
  then show ?case by simp
next
  case (Cons k kids)
  then obtain d where "k = Text d" by (cases k) auto
  with Cons show ?case by simp
qed

lemma text_inside_texts:
  assumes "\<forall>k \<in> set kids. is_text k"
  shows "concat (map (text_inside n) kids) = []"
  using assms
proof (induction kids)
  case Nil
  then show ?case by simp
next
  case (Cons k kids)
  then obtain d where "k = Text d" by (cases k) auto
  with Cons show ?case by simp
qed

lemma collected_flat:
  assumes "flat t" and "n = ''json'' \<or> n = ''html''"
  shows "collected n None (events_of t) = text_inside n t
         \<and> foldl element_state None (events_of t) = None"
  using assms
proof (induction t)
  case (Text d)
  then show ?case by simp
next
  case (Element tag attrs kids)
  show ?case
  proof (cases "tag = ''json'' \<or> tag = ''html''")
    case True
    with Element.prems have texts: "\<forall>k \<in> set kids. is_text k" by simp
    from True collected_texts [OF texts, of n "Some tag"] text_inside_texts [OF texts, of n]
    show ?thesis by (auto simp: collected_append)
  next
    case False
    with Element.prems have fl: "\<forall>k \<in> set kids. flat k" by simp
    have kids: "collected n None (concat (map events_of kids)) = concat (map (text_inside n) kids)
                \<and> foldl element_state None (concat (map events_of kids)) = None"
      using fl Element.IH Element.prems(2)
    proof (induction kids)
      case Nil
      then show ?case by simp
    next
      case (Cons k kids)
      then show ?case by (simp add: collected_append)
    qed
    from False Element.prems(2) kids show ?thesis
      by (auto simp: collected_append)
  qed
qed

lemma XMLParser_call_parser:
  assumes "datafunc p s = (Inr data, s1)" and "expat_parse env data = (evs, err)"
  shows "fst (snd (XMLParser_call env p s)) = Parse (p\<lparr>json := [], html := []\<rparr>) evs"
  using assms by (simp add: XMLParser_call_def Let_def split: option.splits)

text \<open>
  Claim C1, as amended. For every XML feed document, calling an \<open>XMLParser\<close>
  extracts character data into exactly two attributes: character data delivered while
  the parser's element state is \<open>json\<close> is appended to \<open>json\<close> and character data
  delivered while it is \<open>html\<close> is appended to \<open>html\<close>, where the element state is
  set by a start tag named \<open>json\<close> or \<open>html\<close> and cleared by the next end tag, of
  any name; character data encountered in any other element state changes neither
  attribute, and no tag name other than \<open>json\<close> or \<open>html\<close> ever activates
  extraction. After the call the two attributes hold what was so collected; for a
  document whose \<open>json\<close> and \<open>html\<close> elements hold character data only, read by a
  parser whose element state is clear, that is the text inside its \<open>json\<close> elements
  and the text inside its \<open>html\<close> elements.
\<close>

theorem XMLParser_two_tag_extractor:
  "(tag \<noteq> ''json'' \<and> tag \<noteq> ''html'' \<longrightarrow> start_element p tag attrs = p)
   \<and> (tag = ''json'' \<or> tag = ''html'' \<longrightarrow> start_element p tag attrs = p\<lparr>attr := Some tag\<rparr>)
   \<and> end_element p tag = p\<lparr>attr := None\<rparr>
   \<and> (attr (handle p ev) \<noteq> None \<and> attr (handle p ev) \<noteq> attr p \<longrightarrow>
        (\<exists>as. ev = StartElement ''json'' as \<or> ev = StartElement ''html'' as))
   \<and> (attr p = Some ''json'' \<longrightarrow> char_data p d = p\<lparr>json := json p @ d\<rparr>)
   \<and> (attr p = Some ''html'' \<longrightarrow> char_data p d = p\<lparr>html := html p @ d\<rparr>)
   \<and> (attr p = None \<longrightarrow> char_data p d = p)
   \<and> (valid_attr p \<and> datafunc p s = (Inr data, s1) \<and> expat_parse env data = (evs, err) \<longrightarrow>
        json (fst (snd (XMLParser_call env p s))) = collected ''json'' (attr p) evs
        \<and> html (fst (snd (XMLParser_call env p s))) = collected ''html'' (attr p) evs
        \<and> valid_attr (fst (snd (XMLParser_call env p s))))
   \<and> (attr p = None \<and> datafunc p s = (Inr data, s1) \<and> expat_parse env data = (events_of t, err)
        \<and> flat t \<longrightarrow>
        json (fst (snd (XMLParser_call env p s))) = text_inside ''json'' t
        \<and> html (fst (snd (XMLParser_call env p s))) = text_inside ''html'' t)"
proof -
  have a: "tag \<noteq> ''json'' \<and> tag \<noteq> ''html'' \<longrightarrow> start_element p tag attrs = p"
    by (simp add: start_element_def)
  have a1: "tag = ''json'' \<or> tag = ''html'' \<longrightarrow> start_element p tag attrs = p\<lparr>attr := Some tag\<rparr>"
    by (simp add: start_element_def)
  have a2: "end_element p tag = p\<lparr>attr := None\<rparr>"
    by (simp add: end_element_def)
  have a3: "attr (handle p ev) \<noteq> None \<and> attr (handle p ev) \<noteq> attr p \<longrightarrow>
        (\<exists>as. ev = StartElement ''json'' as \<or> ev = StartElement ''html'' as)"
    by (cases ev) (auto simp: start_element_def end_element_def char_data_def)
  have b: "attr p = Some ''json'' \<longrightarrow> char_data p d = p\<lparr>json := json p @ d\<rparr>"
    by (simp add: char_data_def)
  have c: "attr p = Some ''html'' \<longrightarrow> char_data p d = p\<lparr>html := html p @ d\<rparr>"
    by (simp add: char_data_def)
  have d: "attr p = None \<longrightarrow> char_data p d = p"
    by (simp add: char_data_def)
  have e: "json (fst (snd (XMLParser_call env p s))) = collected ''json'' (attr p) evs
        \<and> html (fst (snd (XMLParser_call env p s))) = collected ''html'' (attr p) evs
        \<and> valid_attr (fst (snd (XMLParser_call env p s)))"
    if v: "valid_attr p" and df: "datafunc p s = (Inr data, s1)"
      and ex: "expat_parse env data = (evs, err)" for evs err
  proof -
    let ?p1 = "p\<lparr>json := [], html := []\<rparr>"
    have v1: "valid_attr ?p1" using v by (simp add: valid_attr_def)
    show ?thesis
      using XMLParser_call_parser [OF df ex] json_Parse [OF v1, of evs]
        html_Parse [OF v1, of evs] valid_attr_Parse [OF v1, of evs]
      by simp
  qed
  have f: "json (fst (snd (XMLParser_call env p s))) = text_inside ''json'' t
        \<and> html (fst (snd (XMLParser_call env p s))) = text_inside ''html'' t"
    if n: "attr p = None" and df: "datafunc p s = (Inr data, s1)"
      and ex: "expat_parse env data = (events_of t, err)" and fl: "flat t"
  proof -
    have v: "valid_attr p" using n by (simp add: valid_attr_def)
    show ?thesis
      using e [OF v df ex] n collected_flat [OF fl, of "''json''"]
        collected_flat [OF fl, of "''html''"]
      by simp
  qed
  from a a1 a2 a3 b c d e f show ?thesis by blast
qed

theorem XMLParser_two_tag_extractor_witness:
  "json (fst (snd (XMLParser_call (feed_env flat_feed) feed_parser logged_in))) = ''{}''
   \<and> html (fst (snd (XMLParser_call (feed_env flat_feed) feed_parser logged_in))) = ''<p>''
   \<and> start_element feed_parser ''response'' [] = feed_parser
   \<and> start_element feed_parser ''json'' [] = feed_parser\<lparr>attr := Some ''json''\<rparr>
   \<and> end_element (feed_parser\<lparr>attr := Some ''json''\<rparr>) ''b'' = feed_parser
   \<and> char_data feed_parser ''x'' = feed_parser
   \<and> char_data (feed_parser\<lparr>attr := Some ''json''\<rparr>) ''x''
       = feed_parser\<lparr>attr := Some ''json'', json := ''x''\<rparr>
   \<and> char_data (feed_parser\<lparr>attr := Some ''html''\<rparr>) ''x''
       = feed_parser\<lparr>attr := Some ''html'', html := ''x''\<rparr>"
proof -
  have h1: "attr feed_parser = None" by (simp add: feed_parser_def XMLParser_init_def)
  have h2: "datafunc feed_parser logged_in = (Inr ''feed'', logged_in)"
    by (simp add: feed_parser_def XMLParser_init_def)
  have h3: "expat_parse (feed_env flat_feed) ''feed'' = (events_of flat_feed, None)"
    by (simp add: feed_env_def example_env_def)
  have h4: "flat flat_feed" by (simp add: flat_feed_def)
  have h5: "text_inside ''json'' flat_feed = ''{}''" "text_inside ''html'' flat_feed = ''<p>''"
    by (simp_all add: flat_feed_def)
  have h6: "attr (handle feed_parser (StartElement ''json'' [])) \<noteq> None
      \<and> attr (handle feed_parser (StartElement ''json'' [])) \<noteq> attr feed_parser"
    by (simp add: feed_parser_def XMLParser_init_def start_element_def)
  show ?thesis
    using XMLParser_two_tag_extractor
            [where tag = "''response''" and p = feed_parser and attrs = "[]" and d = "''x''"
               and s = logged_in and data = "''feed''" and ?s1.0 = logged_in
               and env = "feed_env flat_feed" and evs = "events_of flat_feed" and err = None
               and t = flat_feed and ev = "StartElement ''json'' []"]
          XMLParser_two_tag_extractor
            [where tag = "''json''" and p = feed_parser and attrs = "[]"]
          XMLParser_two_tag_extractor
            [where tag = "''b''" and p = "feed_parser\<lparr>attr := Some ''json''\<rparr>"
               and d = "''x''"]
          XMLParser_two_tag_extractor
            [where p = "feed_parser\<lparr>attr := Some ''html''\<rparr>" and d = "''x''"]
          h1 h2 h3 h4 h5 h6
    by (simp add: feed_parser_def XMLParser_init_def)
qed

text \<open>
  Claim C1 as stated fails on a document with an element inside its \<open>json\<close> element:
  the text \<open>d\<close> of \<open><json><b></b>d</json>\<close> occurs while inside the element named
  \<open>json\<close>, and the call leaves \<open>json\<close> empty, because the end tag of \<open>b\<close> has
  cleared the element state.
\<close>

theorem XMLParser_nested_counterexample:
  "text_inside ''json'' nested_feed = ''d''
   \<and> json (fst (snd (XMLParser_call (feed_env nested_feed) feed_parser logged_in))) = []"
  by (simp add: nested_feed_def feed_env_def feed_parser_def example_env_def
        XMLParser_call_def XMLParser_init_def Parse_def start_element_def end_element_def
        char_data_def Let_def)

section \<open>The decoded data and the folder\<close>

lemma XMLParser_call_folder:
  assumes "XMLParser_call env p s = (Inr f, p', s')"
  shows "XMLParser_folder env p' = Inr f \<and> name p' = name p"
  using assms
  by (auto simp: XMLParser_call_def Let_def name_Parse split: prod.splits sum.splits option.splits)

text \<open>
  Claim C5. Reading the \<open>data\<close> property of an \<open>XMLParser\<close> raises \<open>JSONError\<close>
  if and only if decoding the accumulated \<open>json\<close> string fails (and it raises nothing
  else); when decoding succeeds \<open>data\<close> is the decoded value; and a \<open>Folder\<close> returned
  by calling the parser is built from exactly that value, under the parser's page name:
  its name is the page name and, the value being a JSON object, its items are the items
  of that object (for any other value, what \<open>dict()\<close> makes of it).
\<close>

theorem XMLParser_data_JSONError_iff:
  "((\<exists>c. XMLParser_data env p = Inl (JSONError c)) \<longleftrightarrow> (\<exists>e. json_loads env (json p) = Inl e))
   \<and> (\<forall>e. XMLParser_data env p = Inl e \<longrightarrow> (\<exists>c. e = JSONError c \<and> json_loads env (json p) = Inl c))
   \<and> (\<forall>v. json_loads env (json p) = Inr v \<longrightarrow> XMLParser_data env p = Inr v)
   \<and> (\<forall>f p' s'. XMLParser_call env p s = (Inr f, p', s') \<longrightarrow>
         (\<exists>v. XMLParser_data env p' = Inr v \<and> json_loads env (json p') = Inr v
              \<and> Folder_init env (name p) v = Inr f
              \<and> (\<forall>kvs. v = PDict kvs \<longrightarrow> Folder_items f = kvs)
              \<and> ((\<forall>kvs. v \<noteq> PDict kvs) \<longrightarrow> dict_of_iterable env v = Inr (Folder_items f)))
         \<and> Folder_name f = name p)"
proof -
  have a: "(\<exists>c. XMLParser_data env p = Inl (JSONError c)) \<longleftrightarrow> (\<exists>e. json_loads env (json p) = Inl e)"
    by (auto simp: XMLParser_data_def split: sum.splits)
  have b: "\<forall>e. XMLParser_data env p = Inl e \<longrightarrow> (\<exists>c. e = JSONError c \<and> json_loads env (json p) = Inl c)"
    by (auto simp: XMLParser_data_def split: sum.splits)
  have c: "\<forall>v. json_loads env (json p) = Inr v \<longrightarrow> XMLParser_data env p = Inr v"
    by (simp add: XMLParser_data_def)
  have d: "(\<exists>v. XMLParser_data env p' = Inr v \<and> json_loads env (json p') = Inr v
              \<and> Folder_init env (name p) v = Inr f
              \<and> (\<forall>kvs. v = PDict kvs \<longrightarrow> Folder_items f = kvs)
              \<and> ((\<forall>kvs. v \<noteq> PDict kvs) \<longrightarrow> dict_of_iterable env v = Inr (Folder_items f)))
         \<and> Folder_name f = name p"
    if call: "XMLParser_call env p s = (Inr f, p', s')" for f p' s'
  proof -
    from XMLParser_call_folder [OF call]
    have fo: "XMLParser_folder env p' = Inr f" and nm: "name p' = name p" by simp_all
    from fo obtain v where v: "XMLParser_data env p' = Inr v"
      and fi: "Folder_init env (name p') v = Inr f"
      by (auto simp: XMLParser_folder_def split: sum.splits)
    from v have jl: "json_loads env (json p') = Inr v"
      by (auto simp: XMLParser_data_def split: sum.splits)
    from fi have fn: "Folder_name f = name p'"
      by (auto simp: Folder_init_def split: sum.splits)
    from fi have di: "dict_init env v = Inr (Folder_items f)"
      by (auto simp: Folder_init_def split: sum.splits)
    from di have it: "\<forall>kvs. v = PDict kvs \<longrightarrow> Folder_items f = kvs"
      by (auto simp: dict_init_def)
    from di have ot: "(\<forall>kvs. v \<noteq> PDict kvs) \<longrightarrow> dict_of_iterable env v = Inr (Folder_items f)"
      by (cases v) (auto simp: dict_init_def)
    from v jl fi nm fn it ot show ?thesis by auto
  qed
  from a b c d show ?thesis by blast
qed

theorem XMLParser_data_JSONError_iff_witness:
  "XMLParser_call folder_env feed_parser logged_in
     = (Inr \<lparr>Folder_name = ''inbox'', Folder_items = [(''totalSize'', PInt 1)]\<rparr>,
        feed_parser\<lparr>json := folder_json, html := ''<p>''\<rparr>, logged_in)
   \<and> XMLParser_data folder_env (feed_parser\<lparr>json := folder_json, html := ''<p>''\<rparr>)
       = Inr (PDict [(''totalSize'', PInt 1)])
   \<and> Folder_init folder_env ''inbox'' (PDict [(''totalSize'', PInt 1)])
       = Inr \<lparr>Folder_name = ''inbox'', Folder_items = [(''totalSize'', PInt 1)]\<rparr>
   \<and> XMLParser_data folder_env feed_parser = Inl (JSONError ValueError)"
proof -
  have call: "XMLParser_call folder_env feed_parser logged_in
     = (Inr \<lparr>Folder_name = ''inbox'', Folder_items = [(''totalSize'', PInt 1)]\<rparr>,
        feed_parser\<lparr>json := folder_json, html := ''<p>''\<rparr>, logged_in)"
    by (simp add: folder_feed_def folder_env_def feed_env_def feed_parser_def example_env_def
        XMLParser_call_def XMLParser_init_def Parse_def start_element_def end_element_def
        char_data_def XMLParser_folder_def XMLParser_data_def Folder_init_def dict_init_def
        Let_def)
  have fails: "json_loads folder_env (json feed_parser) = Inl ValueError"
    by (simp add: folder_env_def folder_json_def feed_parser_def XMLParser_init_def)
  from XMLParser_data_JSONError_iff [of folder_env feed_parser logged_in] fails
  have bad: "XMLParser_data folder_env feed_parser = Inl (JSONError ValueError)"
    by auto
  from XMLParser_data_JSONError_iff [of folder_env feed_parser logged_in] call
  have good: "\<exists>v. XMLParser_data folder_env (feed_parser\<lparr>json := folder_json, html := ''<p>''\<rparr>) = Inr v
      \<and> json_loads folder_env (json (feed_parser\<lparr>json := folder_json, html := ''<p>''\<rparr>)) = Inr v
      \<and> Folder_init folder_env (name feed_parser) v
          = Inr \<lparr>Folder_name = ''inbox'', Folder_items = [(''totalSize'', PInt 1)]\<rparr>"
    by blast
  have nm: "name feed_parser = ''inbox''" by (simp add: feed_parser_def XMLParser_init_def)
  have jl: "json_loads folder_env (json (feed_parser\<lparr>json := folder_json, html := ''<p>''\<rparr>))
      = Inr (PDict [(''totalSize'', PInt 1)])"
    by (simp add: folder_env_def)
  from good jl nm call bad show ?thesis by auto
qed

section \<open>What the client stores: the session token and the contacts\<close>

lemma special_cached:
  "truthy_str (getattr_special s) \<Longrightarrow> special env s = (Inr (getattr_special s), s)"
  by (simp add: special_def)

lemma special_fetch:
  assumes "\<not> truthy_str (getattr_special s)"
  shows "special env s =
     (case server env (sent s) (inbox_request env) of
        Inl e \<Rightarrow>
          (Inl e, s\<lparr>sent := sent s @ [(inbox_request env, Inl e)]\<rparr>)
      | Inr r \<Rightarrow>
          (Inr (re_search match_special (resp_text r)),
           s\<lparr>sent := sent s @ [(inbox_request env, Inr r)],
             special_attr := Present (re_search match_special (resp_text r))\<rparr>))"
  using assms
  by (simp add: special_def session_get_def session_request_def inbox_request_def Let_def
      split: sum.splits)

lemma special_result_cached:
  assumes "special env s = (Inr sp, s1)" and "truthy_str sp"
  shows "special env s1 = (Inr sp, s1)"
proof (cases "truthy_str (getattr_special s)")
  case True
  with assms show ?thesis by (auto simp: special_def)
next
  case False
  from assms(1) special_fetch [OF False, of env]
  have "getattr_special s1 = sp"
    by (auto simp: getattr_special_def split: sum.splits)
  with assms(2) show ?thesis by (simp add: special_def)
qed

lemma contacts_cached: "contacts_attr s = Present c \<Longrightarrow> contacts env s = (Inr c, s)"
  by (simp add: contacts_def)

lemma contacts_result_cached:
  assumes "fst (contacts env s) = Inr c"
  shows "contacts_attr (snd (contacts env s)) = Present c"
  using assms
  by (auto simp: contacts_def split: pyattr.splits prod.splits sum.splits)

lemma XMLParser_call_state: "snd (snd (XMLParser_call env p s)) = snd (datafunc p s)"
  by (simp add: XMLParser_call_def Let_def split: prod.splits sum.splits option.splits)

text \<open>
  Claim C2, as amended. The client stores two results of the service in its state and
  returns them again: once a truthy session token has been extracted, every later access
  to \<open>special\<close> returns the stored token and sends no request; once the contacts have
  been retrieved, every later access to \<open>contacts\<close> returns the stored folder and sends
  no request. While no truthy token is stored, every access to \<open>special\<close> sends a fresh
  request for the inbox page; while no contacts are stored, \<open>contacts\<close> calls the
  contacts parser; and every call of a parser runs its data function.
\<close>

theorem special_and_contacts_are_stored:
  "(truthy_str (getattr_special s) \<longrightarrow> special env s = (Inr (getattr_special s), s))
   \<and> (\<not> truthy_str (getattr_special s) \<longrightarrow>
        sent (snd (special env s)) =
          sent s @ [(inbox_request env, server env (sent s) (inbox_request env))])
   \<and> (\<forall>sp. fst (special env s) = Inr sp \<and> truthy_str sp \<longrightarrow>
        special env (snd (special env s)) = (Inr sp, snd (special env s)))
   \<and> (\<forall>c. contacts_attr s = Present c \<longrightarrow> contacts env s = (Inr c, s))
   \<and> (contacts_attr s = Absent \<longrightarrow>
        fst (contacts env s) =
          fst (XMLParser_call env (get_xml_page env ''contacts'' None (Some []) (Some [])) s))
   \<and> (\<forall>c. fst (contacts env s) = Inr c \<longrightarrow>
        contacts env (snd (contacts env s)) = (Inr c, snd (contacts env s)))
   \<and> snd (snd (XMLParser_call env p s)) = snd (datafunc p s)"
proof -
  have a: "truthy_str (getattr_special s) \<longrightarrow> special env s = (Inr (getattr_special s), s)"
    by (simp add: special_cached)
  have b: "\<not> truthy_str (getattr_special s) \<longrightarrow>
        sent (snd (special env s)) =
          sent s @ [(inbox_request env, server env (sent s) (inbox_request env))]"
    by (auto simp: special_fetch split: sum.splits)
  have c: "\<forall>sp. fst (special env s) = Inr sp \<and> truthy_str sp \<longrightarrow>
        special env (snd (special env s)) = (Inr sp, snd (special env s))"
    using special_result_cached [of env s _ "snd (special env s)"]
    by (metis prod.collapse)
  have d: "\<forall>c. contacts_attr s = Present c \<longrightarrow> contacts env s = (Inr c, s)"
    by (simp add: contacts_cached)
  have e: "contacts_attr s = Absent \<longrightarrow>
        fst (contacts env s) =
          fst (XMLParser_call env (get_xml_page env ''contacts'' None (Some []) (Some [])) s)"
    by (auto simp: contacts_def split: prod.splits sum.splits)
  have f: "\<forall>c. fst (contacts env s) = Inr c \<longrightarrow>
        contacts env (snd (contacts env s)) = (Inr c, snd (contacts env s))"
    using contacts_result_cached [of env s] contacts_cached [of "snd (contacts env s)"]
    by blast
  from a b c d e f XMLParser_call_state show ?thesis by blast
qed

theorem special_and_contacts_are_stored_witness:
  "special (example_env (echo_server example_page)) logged_out =
     (Inr (Some ''tok''),
      logged_out\<lparr>sent := [(inbox_request (example_env (echo_server example_page)),
                           Inr (page_response ''https://voice.example/INBOX'' example_page))],
                  special_attr := Present (Some ''tok'')\<rparr>)
   \<and> special (example_env (echo_server example_page))
       (snd (special (example_env (echo_server example_page)) logged_out))
     = (Inr (Some ''tok''), snd (special (example_env (echo_server example_page)) logged_out))
   \<and> contacts (example_env failing_server) with_contacts
     = (Inr \<lparr>Folder_name = ''contacts'', Folder_items = []\<rparr>, with_contacts)"
proof -
  let ?env = "example_env (echo_server example_page)"
  have tok: "re_search match_special example_page = Some ''tok''"
    by (simp add: example_page_def match_special_def lit_def dot_plus_then_def
        squote_def dquote_def newline_def)
  have nt: "\<not> truthy_str (getattr_special logged_out)"
    by (simp add: logged_out_def Voice_init_def getattr_special_def)
  have srv: "server ?env (sent logged_out) (inbox_request ?env)
      = Inr (page_response ''https://voice.example/INBOX'' example_page)"
    by (simp add: example_env_def echo_server_def inbox_request_def)
  have first: "special ?env logged_out =
     (Inr (Some ''tok''),
      logged_out\<lparr>sent := [(inbox_request ?env,
                           Inr (page_response ''https://voice.example/INBOX'' example_page))],
                  special_attr := Present (Some ''tok'')\<rparr>)"
    using special_fetch [OF nt, of ?env] srv tok
    by (simp add: page_response_def logged_out_def Voice_init_def)
  have c: "contacts_attr with_contacts = Present \<lparr>Folder_name = ''contacts'', Folder_items = []\<rparr>"
    by (simp add: with_contacts_def)
  from special_and_contacts_are_stored [of logged_out ?env feed_parser] first
  have second: "special ?env (snd (special ?env logged_out))
     = (Inr (Some ''tok''), snd (special ?env logged_out))"
    by simp
  from special_and_contacts_are_stored [of with_contacts "example_env failing_server" feed_parser] c
  have third: "contacts (example_env failing_server) with_contacts
     = (Inr \<lparr>Folder_name = ''contacts'', Folder_items = []\<rparr>, with_contacts)"
    by simp
  from first second third show ?thesis by simp
qed

text \<open>
  Claim C2 as stated fails: with a token stored, an access to \<open>special\<close> returns the
  stored value and sends no request, even to a service that would fail; and so does an
  access to \<open>contacts\<close> with contacts stored.
\<close>

theorem special_cached_counterexample:
  "special (example_env failing_server) logged_in = (Inr (Some ''tok''), logged_in)
   \<and> sent (snd (special (example_env failing_server) logged_in)) = []
   \<and> contacts (example_env failing_server) with_contacts
       = (Inr \<lparr>Folder_name = ''contacts'', Folder_items = []\<rparr>, with_contacts)
   \<and> sent (snd (contacts (example_env failing_server) with_contacts)) = []"
  by (simp add: special_def contacts_def getattr_special_def logged_in_def with_contacts_def
      Voice_init_def)

section \<open>The action endpoints\<close>

lemma dict_setitem_not_Nil: "dict_setitem d k v \<noteq> []"
  by (cases d) (auto split: if_splits)

lemma do_special_page_token:
  assumes "special env s = (Inr (Some tok), s1)" and "tok \<noteq> []"
  shows "do_special_page env page (Some d) headers terms s =
           do_page env page (Some (dict_update d [(''_rnr_se'', PStr tok)])) headers terms s1"
proof -
  from assms have "special env s1 = (Inr (Some tok), s1)"
    using special_result_cached [of env s "Some tok" s1] by simp
  with assms show ?thesis
    by (simp add: do_special_page_def pyval_of_str_def)
qed

lemma do_special_page_no_token:
  assumes "special env s = (Inr sp, s1)" and "\<not> truthy_str sp"
  shows "do_special_page env page data headers terms s = (Inl AssertionError, s1)"
  using assms by (simp add: do_special_page_def)

lemma do_special_page_error:
  assumes "special env s = (Inl e, s1)"
  shows "do_special_page env page data headers terms s = (Inl e, s1)"
  using assms by (simp add: do_special_page_def)

lemma do_page_post:
  assumes "d \<noteq> []"
  shows "do_page env page (Some d) (Some []) (Some []) s =
     (server env (sent s)
        \<lparr>req_method = ''POST'', req_url = resolve_page env page,
         req_data = Some d, req_params = None, req_headers = Some []\<rparr>,
      s\<lparr>sent := sent s @
          [(\<lparr>req_method = ''POST'', req_url = resolve_page env page,
             req_data = Some d, req_params = None, req_headers = Some []\<rparr>,
            server env (sent s)
              \<lparr>req_method = ''POST'', req_url = resolve_page env page,
               req_data = Some d, req_params = None, req_headers = Some []\<rparr>)]\<rparr>)"
  using assms
  by (simp add: do_page_def do_url_def session_request_def truthy_dict_def Let_def)

lemma validate_response_dict:
  "validate_response (PDict d) =
     (if has_truthy_ok d then Inr () else Inl (ValidationError (PDict d)))"
  by (auto simp: validate_response_def has_truthy_ok_def dict_contains_def dict_getitem_def
      split: option.splits bool.splits sum.splits)

lemma validate_special_page_plain:
  "validate_special_page env page data [] s =
     (case do_special_page env page (Some data) (Some []) (Some []) s of
        (Inl e, s1) \<Rightarrow> (Inl e, s1)
      | (Inr resp, s1) \<Rightarrow> (load_and_validate resp, s1))"
  by (simp add: validate_special_page_def)

lemma messages_post_single:
  "messages_post env page [msg] data s =
     do_special_page env page (Some (dict_setitem data ''messages'' (PStr (msg_id_of msg))))
       (Some []) (Some []) s"
  by (simp add: messages_post_def)

lemma perform_as_page:
  "perform env ep s =
     (if validated ep then
        (case do_special_page env (endpoint_page ep) (Some (caller_data env ep)) (Some [])
                (Some []) s of
           (Inl e, s1) \<Rightarrow> (Inl e, s1)
         | (Inr resp, s1) \<Rightarrow> (load_and_validate resp, s1))
      else
        (case do_special_page env (endpoint_page ep) (Some (caller_data env ep)) (Some [])
                (Some []) s of
           (Inl e, s1) \<Rightarrow> (Inl e, s1)
         | (Inr resp, s1) \<Rightarrow> (Inr (), s1)))"
proof (cases ep)
  case (Call a b c d)
  then show ?thesis
    by (simp add: call_def validate_special_page_plain py_or_def Let_def)
next
  case (Cancel a b)
  then show ?thesis by (simp add: cancel_def validate_special_page_plain py_or_def)
next
  case (SendSms a b)
  then show ?thesis by (simp add: send_sms_def validate_special_page_plain)
next
  case (Archive msg flag)
  then show ?thesis by (simp add: archive_def messages_post_single)
next
  case (Delete msg trash)
  then show ?thesis by (simp add: delete_def messages_post_single)
next
  case (MessageDelete m trash)
  then show ?thesis by (simp add: Message_delete_def messages_post_single msg_id_of_def)
next
  case (MessageStar m star)
  then show ?thesis by (simp add: Message_star_def messages_post_single msg_id_of_def)
next
  case (MessageMark m read)
  then show ?thesis by (simp add: Message_mark_def messages_post_single msg_id_of_def)
next
  case (PhoneEnable p)
  then show ?thesis
    by (simp add: Phone_enable_def Phone_call_forwarding_def AttrDict_getattr_total
        validate_special_page_plain)
next
  case (PhoneDisable p)
  then show ?thesis
    by (simp add: Phone_disable_def Phone_call_forwarding_def AttrDict_getattr_total
        validate_special_page_plain)
qed

lemma perform_with_token:
  assumes "special env s = (Inr (Some tok), s1)" and "tok \<noteq> []"
  shows "perform env ep s =
     (case server env (sent s1) (action_request env ep tok) of
        Inl e \<Rightarrow> Inl e
      | Inr r \<Rightarrow> if validated ep then load_and_validate r else Inr (),
      s1\<lparr>sent := sent s1 @
            [(action_request env ep tok,
              server env (sent s1) (action_request env ep tok))]\<rparr>)"
proof -
  let ?d = "dict_update (caller_data env ep) [(''_rnr_se'', PStr tok)]"
  have ne: "?d \<noteq> []" by (simp add: dict_setitem_not_Nil)
  have page: "do_special_page env (endpoint_page ep) (Some (caller_data env ep)) (Some [])
      (Some []) s =
      do_page env (endpoint_page ep) (Some ?d) (Some []) (Some []) s1"
    by (rule do_special_page_token [OF assms])
  show ?thesis
    unfolding perform_as_page page do_page_post [OF ne] action_request_def
    by (simp split: sum.splits)
qed

lemma load_and_validate_dict:
  assumes "resp_json r = Inr (PDict d)"
  shows "load_and_validate r =
           (if has_truthy_ok d then Inr () else Inl (ValidationError (PDict d)))"
  using assms by (simp add: load_and_validate_def validate_response_dict)

text \<open>
  Claim C6, as amended. Every action endpoint (call, cancel, send SMS, archive, delete,
  star, mark, phone enable and disable) needs an active session: it first reads
  \<open>special\<close>, and without a truthy token it raises \<open>AssertionError\<close> and sends
  nothing to its page. With a token it posts to its page the caller's data augmented
  with the token under \<open>_rnr_se\<close>. Call, cancel, send SMS and phone enable and
  disable then validate the response: when it decodes to a JSON object,
  \<open>ValidationError\<close> is raised exactly when the object lacks a truthy \<open>ok\<close> field.
  Archive, delete, star and mark do not look at the response: they return once the
  service has answered.
\<close>

theorem action_endpoints:
  "(\<forall>e s1. special env s = (Inl e, s1) \<longrightarrow> perform env ep s = (Inl e, s1))
   \<and> (\<forall>sp s1. special env s = (Inr sp, s1) \<and> \<not> truthy_str sp \<longrightarrow>
         perform env ep s = (Inl AssertionError, s1))
   \<and> (\<forall>tok s1. special env s = (Inr (Some tok), s1) \<and> tok \<noteq> [] \<longrightarrow>
         snd (perform env ep s) =
           s1\<lparr>sent := sent s1 @
                 [(action_request env ep tok,
                   server env (sent s1) (action_request env ep tok))]\<rparr>
         \<and> (\<forall>e. server env (sent s1) (action_request env ep tok) = Inl e \<longrightarrow>
               fst (perform env ep s) = Inl e)
         \<and> (\<forall>r. server env (sent s1) (action_request env ep tok) = Inr r \<longrightarrow>
               (\<not> validated ep \<longrightarrow> fst (perform env ep s) = Inr ())
             \<and> (validated ep \<longrightarrow> fst (perform env ep s) = load_and_validate r)
             \<and> (\<forall>d. validated ep \<and> resp_json r = Inr (PDict d) \<longrightarrow>
                   ((\<exists>j. fst (perform env ep s) = Inl (ValidationError j))
                      \<longleftrightarrow> \<not> has_truthy_ok d)
                 \<and> (has_truthy_ok d \<longrightarrow> fst (perform env ep s) = Inr ()))))"
proof -
  have a: "perform env ep s = (Inl e, s1)" if "special env s = (Inl e, s1)" for e s1
    using that by (simp add: perform_as_page do_special_page_error)
  have b: "perform env ep s = (Inl AssertionError, s1)"
    if "special env s = (Inr sp, s1)" and "\<not> truthy_str sp" for sp s1
    using that by (simp add: perform_as_page do_special_page_no_token)
  have c: "snd (perform env ep s) =
           s1\<lparr>sent := sent s1 @
                 [(action_request env ep tok,
                   server env (sent s1) (action_request env ep tok))]\<rparr>
         \<and> (\<forall>e. server env (sent s1) (action_request env ep tok) = Inl e \<longrightarrow>
               fst (perform env ep s) = Inl e)
         \<and> (\<forall>r. server env (sent s1) (action_request env ep tok) = Inr r \<longrightarrow>
               (\<not> validated ep \<longrightarrow> fst (perform env ep s) = Inr ())
             \<and> (validated ep \<longrightarrow> fst (perform env ep s) = load_and_validate r)
             \<and> (\<forall>d. validated ep \<and> resp_json r = Inr (PDict d) \<longrightarrow>
                   ((\<exists>j. fst (perform env ep s) = Inl (ValidationError j))
                      \<longleftrightarrow> \<not> has_truthy_ok d)
                 \<and> (has_truthy_ok d \<longrightarrow> fst (perform env ep s) = Inr ())))"
    if sp: "special env s = (Inr (Some tok), s1)" and tok: "tok \<noteq> []" for tok s1
  proof -
    note p = perform_with_token [OF sp tok, of ep]
    have c1: "snd (perform env ep s) =
           s1\<lparr>sent := sent s1 @
                 [(action_request env ep tok,
                   server env (sent s1) (action_request env ep tok))]\<rparr>"
      by (simp add: p)
    have c2: "fst (perform env ep s) = Inl e"
      if "server env (sent s1) (action_request env ep tok) = Inl e" for e
      using that by (simp add: p)
    have c3: "(\<not> validated ep \<longrightarrow> fst (perform env ep s) = Inr ())
             \<and> (validated ep \<longrightarrow> fst (perform env ep s) = load_and_validate r)
             \<and> (\<forall>d. validated ep \<and> resp_json r = Inr (PDict d) \<longrightarrow>
                   ((\<exists>j. fst (perform env ep s) = Inl (ValidationError j))
                      \<longleftrightarrow> \<not> has_truthy_ok d)
                 \<and> (has_truthy_ok d \<longrightarrow> fst (perform env ep s) = Inr ()))"
      if "server env (sent s1) (action_request env ep tok) = Inr r" for r
      using that by (auto simp: p load_and_validate_dict)
    from c1 c2 c3 show ?thesis by blast
  qed
  from a b c show ?thesis by blast
qed

theorem action_endpoints_witness:
  "perform (example_env accepting_server) (SendSms (PStr ''555'') (PStr ''hi'')) logged_in
     = (Inr (),
        logged_in\<lparr>sent :=
          [(\<lparr>req_method = ''POST'', req_url = ''https://voice.example/SMS'',
             req_data = Some [(''phoneNumber'', PStr ''555''), (''text'', PStr ''hi''),
                              (''_rnr_se'', PStr ''tok'')],
             req_params = None, req_headers = Some []\<rparr>,
            Inr ((page_response ''https://voice.example/SMS'' [])
                   \<lparr>resp_json := Inr (PDict [(''ok'', PBool True)])\<rparr>))]\<rparr>)
   \<and> fst (perform (example_env refusing_server) (SendSms (PStr ''555'') (PStr ''hi'')) logged_in)
       = Inl (ValidationError (PDict [(''ok'', PBool False)]))
   \<and> fst (perform (example_env refusing_server) (MessageStar
            \<lparr>Message_id = ''m1'', Message_items = []\<rparr> (PInt 1)) logged_in) = Inr ()
   \<and> perform (example_env (echo_server [])) (SendSms (PStr ''555'') (PStr ''hi'')) logged_out
       = (Inl AssertionError,
          logged_out\<lparr>sent := [(inbox_request (example_env (echo_server [])),
                               Inr (page_response ''https://voice.example/INBOX'' []))],
                      special_attr := Present None\<rparr>)"
proof -
  let ?sms = "SendSms (PStr ''555'') (PStr ''hi'')"
  let ?star = "MessageStar \<lparr>Message_id = ''m1'', Message_items = []\<rparr> (PInt 1)"
  have tok: "special env logged_in = (Inr (Some ''tok''), logged_in)" for env
    by (simp add: special_def getattr_special_def logged_in_def Voice_init_def)
  have rq_sms: "action_request (example_env srv) ?sms ''tok'' =
      \<lparr>req_method = ''POST'', req_url = ''https://voice.example/SMS'',
       req_data = Some [(''phoneNumber'', PStr ''555''), (''text'', PStr ''hi''),
                        (''_rnr_se'', PStr ''tok'')],
       req_params = None, req_headers = Some []\<rparr>" for srv
    by (simp add: action_request_def example_env_def resolve_page_def upper_def upper_char_def)
  have ok: "has_truthy_ok [(''ok'', PBool True)]" "\<not> has_truthy_ok [(''ok'', PBool False)]"
    by (simp_all add: has_truthy_ok_def)
  have sent0: "sent logged_in = []" by (simp add: logged_in_def Voice_init_def)
  have w1: "perform (example_env accepting_server) ?sms logged_in
     = (Inr (),
        logged_in\<lparr>sent :=
          [(\<lparr>req_method = ''POST'', req_url = ''https://voice.example/SMS'',
             req_data = Some [(''phoneNumber'', PStr ''555''), (''text'', PStr ''hi''),
                              (''_rnr_se'', PStr ''tok'')],
             req_params = None, req_headers = Some []\<rparr>,
            Inr ((page_response ''https://voice.example/SMS'' [])
                   \<lparr>resp_json := Inr (PDict [(''ok'', PBool True)])\<rparr>))]\<rparr>)"
  proof -
    have srv: "server (example_env accepting_server) []
        (action_request (example_env accepting_server) ?sms ''tok'')
        = Inr ((page_response ''https://voice.example/SMS'' [])
                 \<lparr>resp_json := Inr (PDict [(''ok'', PBool True)])\<rparr>)"
      by (simp add: rq_sms) (simp add: example_env_def accepting_server_def json_server_def)
    from action_endpoints [of "example_env accepting_server" logged_in ?sms]
      tok [of "example_env accepting_server"] srv ok sent0
    have "snd (perform (example_env accepting_server) ?sms logged_in) =
        logged_in\<lparr>sent := [(action_request (example_env accepting_server) ?sms ''tok'',
            Inr ((page_response ''https://voice.example/SMS'' [])
                 \<lparr>resp_json := Inr (PDict [(''ok'', PBool True)])\<rparr>))]\<rparr>"
      and "fst (perform (example_env accepting_server) ?sms logged_in) = Inr ()"
      by (auto simp: page_response_def load_and_validate_dict)
    then show ?thesis by (simp add: rq_sms prod_eq_iff page_response_def)
  qed
  have w2: "fst (perform (example_env refusing_server) ?sms logged_in)
       = Inl (ValidationError (PDict [(''ok'', PBool False)]))"
  proof -
    have srv: "server (example_env refusing_server) []
        (action_request (example_env refusing_server) ?sms ''tok'')
        = Inr ((page_response ''https://voice.example/SMS'' [])
                 \<lparr>resp_json := Inr (PDict [(''ok'', PBool False)])\<rparr>)"
      by (simp add: rq_sms) (simp add: example_env_def refusing_server_def json_server_def)
    from action_endpoints [of "example_env refusing_server" logged_in ?sms]
      tok [of "example_env refusing_server"] srv sent0
    have "fst (perform (example_env refusing_server) ?sms logged_in)
        = load_and_validate ((page_response ''https://voice.example/SMS'' [])
                 \<lparr>resp_json := Inr (PDict [(''ok'', PBool False)])\<rparr>)"
      by simp
    then show ?thesis
      by (simp add: load_and_validate_dict [of _ "[(''ok'', PBool False)]"] ok page_response_def)
  qed
  have w3: "fst (perform (example_env refusing_server) ?star logged_in) = Inr ()"
  proof -
    have srv: "\<exists>r. server (example_env refusing_server) []
        (action_request (example_env refusing_server) ?star ''tok'') = Inr r"
      by (simp add: example_env_def refusing_server_def json_server_def)
    from action_endpoints [of "example_env refusing_server" logged_in ?star]
      tok [of "example_env refusing_server"] srv sent0
    show ?thesis by auto
  qed
  have w4: "perform (example_env (echo_server [])) ?sms logged_out
       = (Inl AssertionError,
          logged_out\<lparr>sent := [(inbox_request (example_env (echo_server [])),
                               Inr (page_response ''https://voice.example/INBOX'' []))],
                      special_attr := Present None\<rparr>)"
  proof -
    have nt: "\<not> truthy_str (getattr_special logged_out)"
      by (simp add: logged_out_def Voice_init_def getattr_special_def)
    have sp: "special (example_env (echo_server [])) logged_out =
       (Inr None,
        logged_out\<lparr>sent := [(inbox_request (example_env (echo_server [])),
                             Inr (page_response ''https://voice.example/INBOX'' []))],
                    special_attr := Present None\<rparr>)"
      using special_fetch [OF nt, of "example_env (echo_server [])"]
      by (simp add: example_env_def echo_server_def inbox_request_def page_response_def
          logged_out_def Voice_init_def match_special_def lit_def)
    from action_endpoints [of "example_env (echo_server [])" logged_out ?sms] sp
    show ?thesis by simp
  qed
  from w1 w2 w3 w4 show ?thesis by simp
qed

text \<open>
  Claim C6 as stated fails on the message operations: the service answers the archive
  request with \<open>{"ok": false}\<close>, and \<open>archive\<close> returns without an exception.
\<close>

theorem archive_unvalidated_counterexample:
  "archive (example_env refusing_server) (MsgId ''m1'') (PInt 1) logged_in
     = (Inr (),
        logged_in\<lparr>sent :=
          [(\<lparr>req_method = ''POST'', req_url = ''https://voice.example/ARCHIVE'',
             req_data = Some [(''archive'', PInt 1), (''messages'', PStr ''m1''),
                              (''_rnr_se'', PStr ''tok'')],
             req_params = None, req_headers = Some []\<rparr>,
            Inr refusal)]\<rparr>)
   \<and> resp_json refusal = Inr (PDict [(''ok'', PBool False)])
   \<and> \<not> has_truthy_ok [(''ok'', PBool False)]"
  by (simp add: archive_def messages_post_def do_special_page_def special_def
      getattr_special_def logged_in_def Voice_init_def pyval_of_str_def do_page_def
      do_url_def session_request_def truthy_dict_def resolve_page_def upper_def
      upper_char_def example_env_def refusing_server_def json_server_def page_response_def
      refusal_def msg_id_of_def has_truthy_ok_def Let_def)

section \<open>The retry loop of the second factor\<close>

lemma startswith_self: "startswith s s"
  by (induction s) simp_all

lemma str_in_self: "str_in s s"
  by (cases s) (simp_all add: startswith_self)

lemma oathtoolAuth_attempt:
  "snd (oathtoolAuth env smsKey s)
     = s\<lparr>sent := sent s @ [oathtool_attempt env smsKey (sent s)]\<rparr>
   \<and> fst (oathtoolAuth env smsKey s)
     = (case server env (sent s) (oathtool_request env smsKey (sent s)) of
          Inl e \<Rightarrow> Inl e
        | Inr r \<Rightarrow> Inl AttributeError)"
  by (cases "server env (sent s) (oathtool_request env smsKey (sent s))")
     (simp_all add: oathtoolAuth_def oathtool_attempt_def oathtool_request_def do_page_def
        do_url_def session_request_def truthy_dict_def Response_read_def Let_def)

lemma smsAuth_with_key:
  assumes "(case smsKey of None \<Rightarrow> config_smsKey env | Some k' \<Rightarrow> Some k') = Some k"
    and "b32decode_hex env (filter (\<lambda>c. c \<noteq> CHR '' '') k) = Inr key"
  shows "smsAuth env smsKey s =
     (case server env (sent s) (oathtool_request env key (sent s)) of
        Inl e \<Rightarrow> Inl e
      | Inr r \<Rightarrow> Inl AttributeError,
      s\<lparr>sent := sent s @ [oathtool_attempt env key (sent s)]\<rparr>)"
proof (cases "server env (sent s) (oathtool_request env key (sent s))")
  case (Inl e)
  with oathtoolAuth_attempt [of env key s]
  have "oathtoolAuth env key s
      = (Inl e, s\<lparr>sent := sent s @ [oathtool_attempt env key (sent s)]\<rparr>)"
    by (simp add: prod_eq_iff)
  with assms Inl show ?thesis
    by (simp add: smsAuth_def Let_def)
next
  case (Inr r)
  with oathtoolAuth_attempt [of env key s]
  have "oathtoolAuth env key s
      = (Inl AttributeError, s\<lparr>sent := sent s @ [oathtool_attempt env key (sent s)]\<rparr>)"
    by (simp add: prod_eq_iff)
  with assms Inr show ?thesis
    by (simp add: smsAuth_def Let_def)
qed

text \<open>
  Claim C4, at a run with a key supplied against a service that answers every code with
  the page holding the invalid-code marker. \<open>__oathtoolAuth\<close> posts the code and calls
  \<open>.read()\<close> on the response, which raises \<open>AttributeError\<close>: \<open>__smsAuth\<close> raises
  it after that one attempt. The retry loop is not reached, no second attempt is made
  and no response content is returned.
\<close>

theorem smsAuth_read_AttributeError:
  "server rejecting_env [] (oathtool_request rejecting_env ''616263'' [])
     = Inr (page_response ''https://voice.example/SMSAUTH'' invalid_code_marker)
   \<and> str_in invalid_code_marker
        (resp_text (page_response ''https://voice.example/SMSAUTH'' invalid_code_marker))
   \<and> smsAuth rejecting_env (Some ''MFRG G==='') logged_out
     = (Inl AttributeError,
        logged_out\<lparr>sent := [oathtool_attempt rejecting_env ''616263'' []]\<rparr>)"
proof -
  have key: "(case Some ''MFRG G==='' of None \<Rightarrow> config_smsKey rejecting_env | Some k' \<Rightarrow> Some k')
      = Some ''MFRG G==='' "
    by simp
  have dec: "b32decode_hex rejecting_env (filter (\<lambda>c. c \<noteq> CHR '' '') ''MFRG G==='')
      = Inr ''616263''"
    by (simp add: rejecting_env_def example_env_def)
  have srv: "server rejecting_env [] (oathtool_request rejecting_env ''616263'' [])
     = Inr (page_response ''https://voice.example/SMSAUTH'' invalid_code_marker)"
    by (simp add: rejecting_env_def example_env_def echo_server_def oathtool_request_def
        resolve_page_def upper_def upper_char_def)
  have mark: "str_in invalid_code_marker
        (resp_text (page_response ''https://voice.example/SMSAUTH'' invalid_code_marker))"
    by (simp add: page_response_def str_in_self)
  have "sent logged_out = []" by (simp add: logged_out_def Voice_init_def)
  with smsAuth_with_key [OF key dec, of logged_out] srv
  have "smsAuth rejecting_env (Some ''MFRG G==='') logged_out
     = (Inl AttributeError,
        logged_out\<lparr>sent := [oathtool_attempt rejecting_env ''616263'' []]\<rparr>)"
    by simp
  with srv mark show ?thesis by blast
qed

section \<open>Logging in\<close>














end
